theory Spec2Isabelle
  imports Main "HOL-Library.Sublist" "HOL-Library.Multiset"
begin

text \<open>
  A model of the request and response plumbing of the GitHub API client (package
  \<^verbatim>\<open>github\<close>): the client record and its constructor, the URL builder, the input
  validators, the query-string encoder, the rate-limit reader, and the endpoint methods
  \<^verbatim>\<open>GetIssue\<close>, \<^verbatim>\<open>CheckAssignees\<close>, \<^verbatim>\<open>IsCollab\<close>, \<^verbatim>\<open>HasPullMerged\<close>,
  \<^verbatim>\<open>ListIssueComments\<close>, \<^verbatim>\<open>CreateIssueComment\<close>, \<^verbatim>\<open>CreateRepoKey\<close> and \<^verbatim>\<open>Merge\<close>.
  The functions of Go's standard library that decide what these do (\<^verbatim>\<open>strings\<close>,
  \<^verbatim>\<open>net/url\<close>, \<^verbatim>\<open>strconv\<close>, \<^verbatim>\<open>net/http\<close> headers, the syntax check of
  \<^verbatim>\<open>encoding/json\<close>) are modelled first; the HTTP client and the decoding of a JSON
  body into a typed result are parameters.
\<close>

section \<open>Go values used by the client\<close>

text \<open>
  Go strings are byte sequences, so a string is a \<^typ>\<open>char list\<close> (a \<^typ>\<open>char\<close>
  is one byte). A \<^verbatim>\<open>map[string]string\<close> is a partial map; the index expression
  \<^verbatim>\<open>m[key]\<close> yields the zero value \<^verbatim>\<open>""\<close> at a missing key, and the two-result
  form \<^verbatim>\<open>v, ok := m[key]\<close> also tells whether the key is present.
\<close>

type_synonym Nmap = "string \<rightharpoonup> string"

definition index :: "Nmap \<Rightarrow> string \<Rightarrow> string" where
  "index m key = (case m key of None \<Rightarrow> [] | Some v \<Rightarrow> v)"

definition comma_ok :: "Nmap \<Rightarrow> string \<Rightarrow> string \<times> bool" where
  "comma_ok m key = (case m key of None \<Rightarrow> ([], False) | Some v \<Rightarrow> (v, True))"

text \<open>
  The values of Go's \<^verbatim>\<open>error\<close> interface that the client returns: \<^verbatim>\<open>errors.New(text)\<close>,
  the two errors of \<^verbatim>\<open>encoding/json\<close> that \<^verbatim>\<open>json.Unmarshal\<close> produces on its own
  (a syntax error with its message and offset, and the refusal of a non-pointer target,
  which carries the target's type), and any other error handed to the client by its
  environment (the HTTP transport, reading a body, decoding into a typed value), kept
  with the text it prints.
\<close>

datatype error =
    New string
  | SyntaxError string nat
  | InvalidUnmarshalError string
  | Opaque string

fun Error :: "error \<Rightarrow> string" where
  "Error (New text) = text"
| "Error (SyntaxError msg off) = msg"
| "Error (InvalidUnmarshalError ty) = ''json: Unmarshal(non-pointer '' @ ty @ '')''"
| "Error (Opaque text) = text"

section \<open>Package strings\<close>

text \<open>
  \<^verbatim>\<open>strings.TrimSpace\<close> removes leading and trailing white space as Unicode defines it.
  On the UTF-8 bytes of a string these are the six ASCII characters and the encodings
  of U+0085, U+00A0, U+1680, U+2000 to U+200A, U+2028, U+2029, U+202F, U+205F and
  U+3000. No encoding is a proper prefix or suffix of another, so trimming removes
  such encodings from the front, then from the back of what is left.
\<close>

definition spaceRunes :: "string list" where
  "spaceRunes =
     [[CHR 0x09], [CHR 0x0A], [CHR 0x0B], [CHR 0x0C], [CHR 0x0D], [CHR 0x20],
      [CHR 0xC2, CHR 0x85], [CHR 0xC2, CHR 0xA0], [CHR 0xE1, CHR 0x9A, CHR 0x80]]
     @ map (\<lambda>n. [CHR 0xE2, CHR 0x80, char_of n]) [0x80 ..< 0x8B::nat]
     @ [[CHR 0xE2, CHR 0x80, CHR 0xA8], [CHR 0xE2, CHR 0x80, CHR 0xA9],
        [CHR 0xE2, CHR 0x80, CHR 0xAF], [CHR 0xE2, CHR 0x81, CHR 0x9F],
        [CHR 0xE3, CHR 0x80, CHR 0x80]]"

fun trimPrefixes :: "string list \<Rightarrow> string \<Rightarrow> string" where
  "trimPrefixes ps [] = []"
| "trimPrefixes ps (c # s) =
     (case find (\<lambda>p. p \<noteq> [] \<and> prefix p (c # s)) ps of
        None \<Rightarrow> c # s
      | Some p \<Rightarrow> trimPrefixes ps (drop (length p - 1) s))"

definition TrimSpace :: "string \<Rightarrow> string" where
  "TrimSpace s = rev (trimPrefixes (map rev spaceRunes) (rev (trimPrefixes spaceRunes s)))"

text \<open>\<^verbatim>\<open>strings.Index(s, substr)\<close>: the first position of \<^verbatim>\<open>substr\<close> in \<^verbatim>\<open>s\<close>, or -1.\<close>

fun Index :: "string \<Rightarrow> string \<Rightarrow> int" where
  "Index [] substr = (if substr = [] then 0 else - 1)"
| "Index (c # s) substr =
     (if prefix substr (c # s) then 0
      else (let i = Index s substr in if i = - 1 then - 1 else i + 1))"

section \<open>Package net/url: query escaping\<close>

text \<open>
  \<^verbatim>\<open>url.QueryEscape\<close>: letters, digits and \<^verbatim>\<open>- _ . ~\<close> are kept, a space becomes
  \<^verbatim>\<open>+\<close>, every other byte becomes \<^verbatim>\<open>%XX\<close> with upper-case hexadecimal digits.
\<close>

definition isAlnum :: "char \<Rightarrow> bool" where
  "isAlnum c = (let n = (of_char c :: nat) in
     (97 \<le> n \<and> n \<le> 122) \<or> (65 \<le> n \<and> n \<le> 90) \<or> (48 \<le> n \<and> n \<le> 57))"

definition shouldEscape :: "char \<Rightarrow> bool" where
  "shouldEscape c =
     (if isAlnum c then False
      else if c = CHR ''-'' \<or> c = CHR ''_'' \<or> c = CHR ''.'' \<or> c = CHR ''~'' then False
      else True)"

definition upperhex :: string where
  "upperhex = ''0123456789ABCDEF''"

definition escapeByte :: "char \<Rightarrow> string" where
  "escapeByte c =
     (if c = CHR '' '' then ''+''
      else if shouldEscape c then
        [CHR ''%'', upperhex ! ((of_char c :: nat) div 16), upperhex ! ((of_char c :: nat) mod 16)]
      else [c])"

definition QueryEscape :: "string \<Rightarrow> string" where
  "QueryEscape s = concat (map escapeByte s)"

text \<open>
  \<^verbatim>\<open>url.QueryUnescape\<close>: \<^verbatim>\<open>+\<close> becomes a space and \<^verbatim>\<open>%XX\<close> the byte with that
  hexadecimal code; a \<^verbatim>\<open>%\<close> that two hexadecimal digits do not follow is an error,
  which carries the (at most three) offending bytes.
\<close>

datatype url_error = EscapeError string | InvalidSemicolon

definition ishex :: "char \<Rightarrow> bool" where
  "ishex c = (let n = (of_char c :: nat) in
     (48 \<le> n \<and> n \<le> 57) \<or> (97 \<le> n \<and> n \<le> 102) \<or> (65 \<le> n \<and> n \<le> 70))"

definition unhex :: "char \<Rightarrow> nat" where
  "unhex c = (let n = (of_char c :: nat) in
     if 48 \<le> n \<and> n \<le> 57 then n - 48
     else if 97 \<le> n \<and> n \<le> 102 then n - 97 + 10
     else if 65 \<le> n \<and> n \<le> 70 then n - 65 + 10
     else 0)"

fun QueryUnescape :: "string \<Rightarrow> url_error + string" where
  "QueryUnescape [] = Inr []"
| "QueryUnescape (c # s) =
     (if c = CHR ''%'' then
        (case s of
           a # b # rest \<Rightarrow>
             if ishex a \<and> ishex b then
               (case QueryUnescape rest of
                  Inl e \<Rightarrow> Inl e
                | Inr t \<Rightarrow> Inr (char_of (unhex a * 16 + unhex b) # t))
             else Inl (EscapeError (take 3 (c # s)))
         | _ \<Rightarrow> Inl (EscapeError (take 3 (c # s))))
      else if c = CHR ''+'' then
        (case QueryUnescape s of Inl e \<Rightarrow> Inl e | Inr t \<Rightarrow> Inr (CHR '' '' # t))
      else
        (case QueryUnescape s of Inl e \<Rightarrow> Inl e | Inr t \<Rightarrow> Inr (c # t)))"

text \<open>
  The standard query-string parser, \<^verbatim>\<open>url.ParseQuery\<close>: the query is cut at every
  \<^verbatim>\<open>&\<close>; an empty piece is skipped, a piece with a semicolon is refused; every other
  piece is cut at its first \<^verbatim>\<open>=\<close> and both halves are unescaped. The parser keeps,
  for each key, its values in the order they appear; the model keeps the list of
  (key, value) pairs in that order, together with the error the parser reports.
\<close>

fun Split :: "char \<Rightarrow> string \<Rightarrow> string list" where
  "Split sep [] = [[]]"
| "Split sep (c # s) =
     (if c = sep then [] # Split sep s
      else (case Split sep s of p # ps \<Rightarrow> (c # p) # ps | [] \<Rightarrow> [[c]]))"

fun Cut :: "char \<Rightarrow> string \<Rightarrow> string \<times> string" where
  "Cut sep [] = ([], [])"
| "Cut sep (c # s) =
     (if c = sep then ([], s) else (case Cut sep s of (before, after) \<Rightarrow> (c # before, after)))"

definition parsePiece ::
  "(string \<times> string) list \<times> url_error option \<Rightarrow> string \<Rightarrow> (string \<times> string) list \<times> url_error option" where
  "parsePiece acc piece =
     (case acc of (m, err) \<Rightarrow>
        if CHR '';'' \<in> set piece then (m, Some InvalidSemicolon)
        else if piece = [] then (m, err)
        else (case Cut CHR ''='' piece of (key, val) \<Rightarrow>
          (case QueryUnescape key of
             Inl err1 \<Rightarrow> (m, if err = None then Some err1 else err)
           | Inr key' \<Rightarrow>
               (case QueryUnescape val of
                  Inl err1 \<Rightarrow> (m, if err = None then Some err1 else err)
                | Inr val' \<Rightarrow> (m @ [(key', val')], err)))))"

definition ParseQuery :: "string \<Rightarrow> (string \<times> string) list \<times> url_error option" where
  "ParseQuery query = foldl parsePiece ([], None) (Split CHR ''&'' query)"

section \<open>Package strconv: ParseInt(s, 10, 0)\<close>

text \<open>
  \<^verbatim>\<open>strconv.ParseInt\<close> as the client calls it: base 10 and bit size 0, the size of
  \<^verbatim>\<open>int\<close> (64 bits). An optional sign, then decimal digits only; the unsigned part is
  accumulated in a \<^verbatim>\<open>uint64\<close> and a value outside the range of \<^verbatim>\<open>int\<close> is a range
  error.
\<close>

datatype NumError = ErrSyntax | ErrRange

definition maxUint64 :: nat where
  "maxUint64 = 2 ^ 64 - 1"

definition isDigit :: "char \<Rightarrow> bool" where
  "isDigit c = (48 \<le> (of_char c :: nat) \<and> (of_char c :: nat) \<le> 57)"

fun ParseUint_loop :: "nat \<Rightarrow> string \<Rightarrow> nat \<times> NumError option" where
  "ParseUint_loop n [] = (n, None)"
| "ParseUint_loop n (c # s) =
     (if isDigit c then
        (let d = (of_char c :: nat) - 48 in
         if n \<ge> maxUint64 div 10 + 1 then (maxUint64, Some ErrRange)
         else (let n1 = n * 10 + d in
               if n1 > maxUint64 then (maxUint64, Some ErrRange)
               else ParseUint_loop n1 s))
      else (0, Some ErrSyntax))"

definition ParseUint :: "string \<Rightarrow> nat \<times> NumError option" where
  "ParseUint s = (if s = [] then (0, Some ErrSyntax) else ParseUint_loop 0 s)"

definition ParseInt :: "string \<Rightarrow> NumError + int" where
  "ParseInt s =
     (case s of
        [] \<Rightarrow> Inl ErrSyntax
      | c # t \<Rightarrow>
          (let neg = (c = CHR ''-'');
               s1 = (if c = CHR ''+'' \<or> c = CHR ''-'' then t else s)
           in case ParseUint s1 of
                (un, Some ErrSyntax) \<Rightarrow> Inl ErrSyntax
              | (un, _) \<Rightarrow>
                  if \<not> neg \<and> un \<ge> 2 ^ 63 then Inl ErrRange
                  else if neg \<and> un > 2 ^ 63 then Inl ErrRange
                  else Inr (if neg then - int un else int un)))"

section \<open>Package net/http: reading a response header\<close>

text \<open>
  \<^verbatim>\<open>Header.Get(key)\<close> looks the key up in its canonical form (the first letter and
  every letter after a hyphen in upper case, the others in lower case; a key with a
  byte that is no token character is left as it is) and returns the first value
  stored there, or \<^verbatim>\<open>""\<close>.
\<close>

definition validHeaderFieldByte :: "char \<Rightarrow> bool" where
  "validHeaderFieldByte c = (isAlnum c \<or> c \<in> set ''!#$%&*+-.^_`|~'' \<or> c = CHR 0x27)"

fun canonical :: "bool \<Rightarrow> string \<Rightarrow> string" where
  "canonical upper [] = []"
| "canonical upper (c # a) =
     (let n = (of_char c :: nat);
          c1 = (if upper \<and> 97 \<le> n \<and> n \<le> 122 then char_of (n - 32)
                else if \<not> upper \<and> 65 \<le> n \<and> n \<le> 90 then char_of (n + 32)
                else c)
      in c1 # canonical (c1 = CHR ''-'') a)"

definition CanonicalMIMEHeaderKey :: "string \<Rightarrow> string" where
  "CanonicalMIMEHeaderKey s = (if list_all validHeaderFieldByte s then canonical True s else s)"

definition Header_Get :: "(string \<rightharpoonup> string list) \<Rightarrow> string \<Rightarrow> string" where
  "Header_Get h key =
     (case h (CanonicalMIMEHeaderKey key) of
        None \<Rightarrow> []
      | Some [] \<Rightarrow> []
      | Some (v # vs) \<Rightarrow> v)"

section \<open>Package encoding/json: the syntax check of Unmarshal\<close>

text \<open>
  \<^verbatim>\<open>json.Unmarshal(data, v)\<close> first checks that \<^verbatim>\<open>data\<close> is well-formed JSON
  (\<^verbatim>\<open>checkValid\<close>) and only then looks at the target \<^verbatim>\<open>v\<close>. The check is the
  package's scanner: a state machine that reads one byte at a time, with a stack of
  the objects and arrays it is inside. An error message names the offending byte in
  quotes (\<^verbatim>\<open>quoteChar\<close>).
\<close>

datatype parseState = parseObjectKey | parseObjectValue | parseArrayValue

datatype step =
    stateBeginValueOrEmpty | stateBeginValue | stateBeginStringOrEmpty | stateBeginString
  | stateEndValue | stateEndTop
  | stateInString | stateInStringEsc
  | stateInStringEscU | stateInStringEscU1 | stateInStringEscU12 | stateInStringEscU123
  | stateNeg | state1 | state0 | stateDot | stateDot0 | stateE | stateESign | stateE0
  | stateT | stateTr | stateTru
  | stateF | stateFa | stateFal | stateFals
  | stateN | stateNu | stateNul
  | stateError

text \<open>The stack \<^verbatim>\<open>parseState\<close> is kept with its top at the head of the list.\<close>

record scanner =
  step :: step
  endTop :: bool
  parseState :: "parseState list"
  scan_err :: "error option"
  bytes :: nat

definition lowerhex :: string where
  "lowerhex = ''0123456789abcdef''"

definition hex2 :: "nat \<Rightarrow> string" where
  "hex2 n = [lowerhex ! (n div 16), lowerhex ! (n mod 16)]"

definition quoteChar :: "char \<Rightarrow> string" where
  "quoteChar c =
     (let n = (of_char c :: nat) in
      if c = CHR 0x27 then [CHR 0x27, CHR 0x5C, CHR 0x27, CHR 0x27]
      else if c = CHR 0x22 then [CHR 0x27, CHR 0x22, CHR 0x27]
      else [CHR 0x27] @
        (if c = CHR 0x5C then [CHR 0x5C, CHR 0x5C]
         else if 32 \<le> n \<and> n \<le> 126 then [c]
         else if 161 \<le> n \<and> n \<noteq> 173 then [char_of (192 + n div 64), char_of (128 + n mod 64)]
         else if n = 7 then [CHR 0x5C, CHR ''a'']
         else if n = 8 then [CHR 0x5C, CHR ''b'']
         else if n = 12 then [CHR 0x5C, CHR ''f'']
         else if n = 10 then [CHR 0x5C, CHR ''n'']
         else if n = 13 then [CHR 0x5C, CHR ''r'']
         else if n = 9 then [CHR 0x5C, CHR ''t'']
         else if n = 11 then [CHR 0x5C, CHR ''v'']
         else if n < 32 \<or> n = 127 then [CHR 0x5C, CHR ''x''] @ hex2 n
         else [CHR 0x5C, CHR ''u'', CHR ''0'', CHR ''0''] @ hex2 n)
        @ [CHR 0x27])"

definition scan_error :: "scanner \<Rightarrow> char \<Rightarrow> string \<Rightarrow> scanner" where
  "scan_error s c context =
     s\<lparr>step := stateError,
       scan_err := Some (SyntaxError (''invalid character '' @ quoteChar c @ '' '' @ context) (bytes s))\<rparr>"

definition maxNestingDepth :: nat where
  "maxNestingDepth = 10000"

definition pushParseState :: "scanner \<Rightarrow> char \<Rightarrow> parseState \<Rightarrow> scanner" where
  "pushParseState s c newParseState =
     (let s1 = s\<lparr>parseState := newParseState # parseState s\<rparr> in
      if length (parseState s1) \<le> maxNestingDepth then s1
      else scan_error s1 c ''exceeded max depth'')"

definition popParseState :: "scanner \<Rightarrow> scanner" where
  "popParseState s =
     (let ps = tl (parseState s) in
      if ps = [] then s\<lparr>parseState := ps, step := stateEndTop, endTop := True\<rparr>
      else s\<lparr>parseState := ps, step := stateEndValue\<rparr>)"

definition isSpace :: "char \<Rightarrow> bool" where
  "isSpace c = (c = CHR '' '' \<or> c = CHR 0x09 \<or> c = CHR 0x0D \<or> c = CHR 0x0A)"

definition stateEndTop_step :: "scanner \<Rightarrow> char \<Rightarrow> scanner" where
  "stateEndTop_step s c = (if \<not> isSpace c then scan_error s c ''after top-level value'' else s)"

definition stateEndValue_step :: "scanner \<Rightarrow> char \<Rightarrow> scanner" where
  "stateEndValue_step s c =
     (case parseState s of
        [] \<Rightarrow> stateEndTop_step (s\<lparr>step := stateEndTop, endTop := True\<rparr>) c
      | ps # rest \<Rightarrow>
          if isSpace c then s\<lparr>step := stateEndValue\<rparr>
          else (case ps of
            parseObjectKey \<Rightarrow>
              if c = CHR '':'' then s\<lparr>parseState := parseObjectValue # rest, step := stateBeginValue\<rparr>
              else scan_error s c ''after object key''
          | parseObjectValue \<Rightarrow>
              if c = CHR '','' then s\<lparr>parseState := parseObjectKey # rest, step := stateBeginString\<rparr>
              else if c = CHR ''}'' then popParseState s
              else scan_error s c ''after object key:value pair''
          | parseArrayValue \<Rightarrow>
              if c = CHR '','' then s\<lparr>step := stateBeginValue\<rparr>
              else if c = CHR '']'' then popParseState s
              else scan_error s c ''after array element''))"

definition stateBeginValue_step :: "scanner \<Rightarrow> char \<Rightarrow> scanner" where
  "stateBeginValue_step s c =
     (if isSpace c then s
      else if c = CHR ''{'' then pushParseState (s\<lparr>step := stateBeginStringOrEmpty\<rparr>) c parseObjectKey
      else if c = CHR ''['' then pushParseState (s\<lparr>step := stateBeginValueOrEmpty\<rparr>) c parseArrayValue
      else if c = CHR 0x22 then s\<lparr>step := stateInString\<rparr>
      else if c = CHR ''-'' then s\<lparr>step := stateNeg\<rparr>
      else if c = CHR ''0'' then s\<lparr>step := state0\<rparr>
      else if c = CHR ''t'' then s\<lparr>step := stateT\<rparr>
      else if c = CHR ''f'' then s\<lparr>step := stateF\<rparr>
      else if c = CHR ''n'' then s\<lparr>step := stateN\<rparr>
      else if 49 \<le> (of_char c :: nat) \<and> (of_char c :: nat) \<le> 57 then s\<lparr>step := state1\<rparr>
      else scan_error s c ''looking for beginning of value'')"

definition stateBeginValueOrEmpty_step :: "scanner \<Rightarrow> char \<Rightarrow> scanner" where
  "stateBeginValueOrEmpty_step s c =
     (if isSpace c then s
      else if c = CHR '']'' then stateEndValue_step s c
      else stateBeginValue_step s c)"

definition stateBeginString_step :: "scanner \<Rightarrow> char \<Rightarrow> scanner" where
  "stateBeginString_step s c =
     (if isSpace c then s
      else if c = CHR 0x22 then s\<lparr>step := stateInString\<rparr>
      else scan_error s c ''looking for beginning of object key string'')"

definition stateBeginStringOrEmpty_step :: "scanner \<Rightarrow> char \<Rightarrow> scanner" where
  "stateBeginStringOrEmpty_step s c =
     (if isSpace c then s
      else if c = CHR ''}'' then
        stateEndValue_step (s\<lparr>parseState := parseObjectValue # tl (parseState s)\<rparr>) c
      else stateBeginString_step s c)"

definition stateInString_step :: "scanner \<Rightarrow> char \<Rightarrow> scanner" where
  "stateInString_step s c =
     (if c = CHR 0x22 then s\<lparr>step := stateEndValue\<rparr>
      else if c = CHR 0x5C then s\<lparr>step := stateInStringEsc\<rparr>
      else if (of_char c :: nat) < 32 then scan_error s c ''in string literal''
      else s)"

definition stateInStringEsc_step :: "scanner \<Rightarrow> char \<Rightarrow> scanner" where
  "stateInStringEsc_step s c =
     (if c \<in> set ''bfnrt/'' \<or> c = CHR 0x5C \<or> c = CHR 0x22 then s\<lparr>step := stateInString\<rparr>
      else if c = CHR ''u'' then s\<lparr>step := stateInStringEscU\<rparr>
      else scan_error s c ''in string escape code'')"

definition hexEscape_step :: "step \<Rightarrow> scanner \<Rightarrow> char \<Rightarrow> scanner" where
  "hexEscape_step next s c =
     (if ishex c then s\<lparr>step := next\<rparr>
      else scan_error s c ([CHR ''i'', CHR ''n'', CHR '' '', CHR 0x5C] @ ''u hexadecimal character escape''))"

definition state0_step :: "scanner \<Rightarrow> char \<Rightarrow> scanner" where
  "state0_step s c =
     (if c = CHR ''.'' then s\<lparr>step := stateDot\<rparr>
      else if c = CHR ''e'' \<or> c = CHR ''E'' then s\<lparr>step := stateE\<rparr>
      else stateEndValue_step s c)"

definition state1_step :: "scanner \<Rightarrow> char \<Rightarrow> scanner" where
  "state1_step s c = (if isDigit c then s\<lparr>step := state1\<rparr> else state0_step s c)"

definition stateNeg_step :: "scanner \<Rightarrow> char \<Rightarrow> scanner" where
  "stateNeg_step s c =
     (if c = CHR ''0'' then s\<lparr>step := state0\<rparr>
      else if 49 \<le> (of_char c :: nat) \<and> (of_char c :: nat) \<le> 57 then s\<lparr>step := state1\<rparr>
      else scan_error s c ''in numeric literal'')"

definition stateDot_step :: "scanner \<Rightarrow> char \<Rightarrow> scanner" where
  "stateDot_step s c =
     (if isDigit c then s\<lparr>step := stateDot0\<rparr>
      else scan_error s c ''after decimal point in numeric literal'')"

definition stateDot0_step :: "scanner \<Rightarrow> char \<Rightarrow> scanner" where
  "stateDot0_step s c =
     (if isDigit c then s
      else if c = CHR ''e'' \<or> c = CHR ''E'' then s\<lparr>step := stateE\<rparr>
      else stateEndValue_step s c)"

definition stateESign_step :: "scanner \<Rightarrow> char \<Rightarrow> scanner" where
  "stateESign_step s c =
     (if isDigit c then s\<lparr>step := stateE0\<rparr>
      else scan_error s c ''in exponent of numeric literal'')"

definition stateE_step :: "scanner \<Rightarrow> char \<Rightarrow> scanner" where
  "stateE_step s c =
     (if c = CHR ''+'' \<or> c = CHR ''-'' then s\<lparr>step := stateESign\<rparr> else stateESign_step s c)"

definition stateE0_step :: "scanner \<Rightarrow> char \<Rightarrow> scanner" where
  "stateE0_step s c = (if isDigit c then s else stateEndValue_step s c)"

definition literal_step :: "char \<Rightarrow> step \<Rightarrow> string \<Rightarrow> scanner \<Rightarrow> char \<Rightarrow> scanner" where
  "literal_step expected next name s c =
     (if c = expected then s\<lparr>step := next\<rparr>
      else scan_error s c
        (''in literal '' @ name @ '' (expecting '' @ [CHR 0x27, expected, CHR 0x27] @ '')''))"

definition scan_step :: "scanner \<Rightarrow> char \<Rightarrow> scanner" where
  "scan_step s c =
     (case step s of
        stateBeginValueOrEmpty \<Rightarrow> stateBeginValueOrEmpty_step s c
      | stateBeginValue \<Rightarrow> stateBeginValue_step s c
      | stateBeginStringOrEmpty \<Rightarrow> stateBeginStringOrEmpty_step s c
      | stateBeginString \<Rightarrow> stateBeginString_step s c
      | stateEndValue \<Rightarrow> stateEndValue_step s c
      | stateEndTop \<Rightarrow> stateEndTop_step s c
      | stateInString \<Rightarrow> stateInString_step s c
      | stateInStringEsc \<Rightarrow> stateInStringEsc_step s c
      | stateInStringEscU \<Rightarrow> hexEscape_step stateInStringEscU1 s c
      | stateInStringEscU1 \<Rightarrow> hexEscape_step stateInStringEscU12 s c
      | stateInStringEscU12 \<Rightarrow> hexEscape_step stateInStringEscU123 s c
      | stateInStringEscU123 \<Rightarrow> hexEscape_step stateInString s c
      | stateNeg \<Rightarrow> stateNeg_step s c
      | state1 \<Rightarrow> state1_step s c
      | state0 \<Rightarrow> state0_step s c
      | stateDot \<Rightarrow> stateDot_step s c
      | stateDot0 \<Rightarrow> stateDot0_step s c
      | stateE \<Rightarrow> stateE_step s c
      | stateESign \<Rightarrow> stateESign_step s c
      | stateE0 \<Rightarrow> stateE0_step s c
      | stateT \<Rightarrow> literal_step CHR ''r'' stateTr ''true'' s c
      | stateTr \<Rightarrow> literal_step CHR ''u'' stateTru ''true'' s c
      | stateTru \<Rightarrow> literal_step CHR ''e'' stateEndValue ''true'' s c
      | stateF \<Rightarrow> literal_step CHR ''a'' stateFa ''false'' s c
      | stateFa \<Rightarrow> literal_step CHR ''l'' stateFal ''false'' s c
      | stateFal \<Rightarrow> literal_step CHR ''s'' stateFals ''false'' s c
      | stateFals \<Rightarrow> literal_step CHR ''e'' stateEndValue ''false'' s c
      | stateN \<Rightarrow> literal_step CHR ''u'' stateNu ''null'' s c
      | stateNu \<Rightarrow> literal_step CHR ''l'' stateNul ''null'' s c
      | stateNul \<Rightarrow> literal_step CHR ''l'' stateEndValue ''null'' s c
      | stateError \<Rightarrow> s)"

definition scan_reset :: scanner where
  "scan_reset = \<lparr>step = stateBeginValue, endTop = False, parseState = [], scan_err = None, bytes = 0\<rparr>"

definition scan_eof :: "scanner \<Rightarrow> error option" where
  "scan_eof s =
     (if scan_err s \<noteq> None then scan_err s
      else if endTop s then None
      else (let s1 = scan_step s CHR '' '' in
            if endTop s1 then None
            else if scan_err s1 = None then Some (SyntaxError ''unexpected end of JSON input'' (bytes s1))
            else scan_err s1))"

definition checkValid :: "string \<Rightarrow> error option" where
  "checkValid data = scan_eof (foldl (\<lambda>s c. scan_step (s\<lparr>bytes := bytes s + 1\<rparr>) c) scan_reset data)"

text \<open>
  \<^verbatim>\<open>json.Unmarshal(data, v)\<close> where \<^verbatim>\<open>v\<close> is not a pointer (a struct or a slice passed
  by value): after the syntax check the target is refused, whatever the data, so the
  call always returns an error and never writes to \<^verbatim>\<open>v\<close>. \<^verbatim>\<open>ty\<close> is the printed type
  of the target.
\<close>

definition Unmarshal_nonpointer :: "string \<Rightarrow> string \<Rightarrow> error option" where
  "Unmarshal_nonpointer ty data =
     (case checkValid data of
        Some e \<Rightarrow> Some e
      | None \<Rightarrow> Some (InvalidUnmarshalError ty))"

section \<open>The client and its plumbing\<close>

text \<open>
  An HTTP request as the client hands it to \<^verbatim>\<open>http.Client\<close> (\<^verbatim>\<open>Get(url)\<close> and
  \<^verbatim>\<open>Post(url, contentType, body)\<close>), and the response as the client reads it: the
  status code, the status line, the headers (stored under their canonical keys, each
  with its list of values) and the outcome of reading the whole body.
\<close>

record Request =
  Method :: string
  URL :: string
  ContentType :: string
  ReqBody :: string

record Response =
  StatusCode :: int
  Status :: string
  Header :: "string \<rightharpoonup> string list"
  Body :: "error + string"

text \<open>
  \<^verbatim>\<open>GitHubClient\<close>. The field \<^verbatim>\<open>Client\<close> is the HTTP client the requests go through:
  a request either fails with an error or yields a response.
\<close>

record GitHubClient =
  Type :: string
  Token :: string
  Login :: string
  CallsLimit :: int
  CallsRemaining :: int
  Client :: "Request \<Rightarrow> error + Response"

text \<open>
  \<^verbatim>\<open>NewGitHubClient(token, login)\<close>. The source builds the default \<^verbatim>\<open>&http.Client{}\<close>;
  here the HTTP client is passed in.
\<close>

definition NewGitHubClient :: "(Request \<Rightarrow> error + Response) \<Rightarrow> string \<Rightarrow> string \<Rightarrow> GitHubClient" where
  "NewGitHubClient httpClient token login =
     \<lparr> Type = ''oauth'',
       Token = token,
       Login = login,
       CallsLimit = 5000,
       CallsRemaining = 5000,
       Client = httpClient \<rparr>"

definition APIURL :: string where
  "APIURL = ''https://api.github.com''"

definition createUrl :: "GitHubClient \<Rightarrow> string \<Rightarrow> string" where
  "createUrl github path =
     (if Index path ''?'' = - 1
      then APIURL @ path @ ''?access_token='' @ QueryEscape (Token github)
      else APIURL @ path @ ''&access_token='' @ QueryEscape (Token github))"

definition AssertMapString :: "string \<Rightarrow> Nmap \<Rightarrow> bool" where
  "AssertMapString key m =
     (case comma_ok m key of (v, ok) \<Rightarrow>
        if ok \<and> length (TrimSpace v) \<noteq> 0 then True else False)"

fun AssertMapStrings :: "string list \<Rightarrow> Nmap \<Rightarrow> bool" where
  "AssertMapStrings [] m = True"
| "AssertMapStrings (key # s) m =
     (case comma_ok m key of (val, ok) \<Rightarrow>
        if \<not> ok \<and> TrimSpace val \<noteq> [] then False else AssertMapStrings s m)"

text \<open>
  \<^verbatim>\<open>UrlDataConvert(m)\<close> ranges over the map in an order Go does not fix. The model
  takes the entries in the order the \<^verbatim>\<open>range\<close> loop yields them: any listing of the
  map's entries.
\<close>

fun UrlDataConvert_loop :: "string \<Rightarrow> (string \<times> string) list \<Rightarrow> string" where
  "UrlDataConvert_loop s [] = s"
| "UrlDataConvert_loop s ((key, val) # m) =
     UrlDataConvert_loop
       (if length s = 0
        then s @ QueryEscape (TrimSpace key) @ ''='' @ QueryEscape (TrimSpace val)
        else s @ ''&'' @ QueryEscape (TrimSpace key) @ ''='' @ QueryEscape (TrimSpace val))
       m"

definition UrlDataConvert :: "(string \<times> string) list \<Rightarrow> string" where
  "UrlDataConvert m = UrlDataConvert_loop [] m"

text \<open>
  \<^verbatim>\<open>getLimits(res)\<close>: both headers are parsed before either counter is written.
\<close>

definition getLimits :: "GitHubClient \<Rightarrow> Response \<Rightarrow> GitHubClient" where
  "getLimits github res =
     (case ParseInt (Header_Get (Header res) ''X-RateLimit-Remaining'') of
        Inl e \<Rightarrow> github
      | Inr remain \<Rightarrow>
          (case ParseInt (Header_Get (Header res) ''X-RateLimit-Limit'') of
             Inl e \<Rightarrow> github
           | Inr limit \<Rightarrow> github\<lparr>CallsRemaining := remain, CallsLimit := limit\<rparr>))"

section \<open>Endpoint methods\<close>

text \<open>
  What a call of an endpoint method leaves behind: the method's two results (a nil
  pointer is \<^term>\<open>None\<close>, a nil error is \<^term>\<open>None\<close>), the client with its counters as
  the call left them, the caller's \<^verbatim>\<open>urlData\<close> map as the call left it (the methods
  write the default owner into it), and the requests the call handed to the HTTP
  client, in order. The maps passed to a method are taken to be allocated (writing to a
  nil map panics), and so are the client and the pointers a method receives.
\<close>

record 'r Call =
  ret :: 'r
  ret_err :: "error option"
  ret_client :: GitHubClient
  ret_urlData :: Nmap
  sent :: "Request list"

definition Return :: "'r \<Rightarrow> error option \<Rightarrow> GitHubClient \<Rightarrow> Nmap \<Rightarrow> Request list \<Rightarrow> 'r Call" where
  "Return r e github urlData reqs =
     \<lparr>ret = r, ret_err = e, ret_client = github, ret_urlData = urlData, sent = reqs\<rparr>"

definition Get_request :: "string \<Rightarrow> Request" where
  "Get_request url = \<lparr>Method = ''GET'', URL = url, ContentType = [], ReqBody = []\<rparr>"

definition Post_request :: "string \<Rightarrow> string \<Rightarrow> string \<Rightarrow> Request" where
  "Post_request url contentType body =
     \<lparr>Method = ''POST'', URL = url, ContentType = contentType, ReqBody = body\<rparr>"

text \<open>The step every method with an owner shares: a missing or blank owner becomes the login.\<close>

definition defaultOwner :: "GitHubClient \<Rightarrow> Nmap \<Rightarrow> Nmap" where
  "defaultOwner github urlData =
     (if \<not> AssertMapString ''owner'' urlData then urlData(''owner'' \<mapsto> Login github) else urlData)"

text \<open>
  \<^verbatim>\<open>GetIssue\<close>. \<^verbatim>\<open>unmarshal\<close> stands for \<^verbatim>\<open>json.Unmarshal\<close> into a pointer to the
  result type: it yields the decoded value or an error.
\<close>

definition GetIssue :: "(string \<Rightarrow> error + 'i) \<Rightarrow> GitHubClient \<Rightarrow> Nmap \<Rightarrow> 'i option Call" where
  \<open>GetIssue unmarshal github urlData0 =
     (if \<not> AssertMapStrings [''repo'', ''number''] urlData0 then
        Return None (Some (New ''The urlData["repo"] value and/or urlData["number"] value is either empty or doesn't contain any non-whitespace content'')) github urlData0 []
      else
        (let urlData = defaultOwner github urlData0;
             apiUrl = createUrl github (''/repos/'' @ index urlData ''owner'' @ ''/'' @ index urlData ''repo'' @ ''/issues/'' @ index urlData ''number'');
             req = Get_request apiUrl
         in case Client github req of
              Inl e \<Rightarrow> Return None (Some e) github urlData [req]
            | Inr res \<Rightarrow>
                if StatusCode res = 200 then
                  (case Body res of
                     Inl e \<Rightarrow> Return None (Some e) github urlData [req]
                   | Inr issueJson \<Rightarrow>
                       (case unmarshal issueJson of
                          Inl e \<Rightarrow> Return None (Some e) github urlData [req]
                        | Inr issue \<Rightarrow> Return (Some issue) None (getLimits github res) urlData [req]))
                else Return None (Some (New (''Didn't receive 200 status from Github: '' @ Status res))) github urlData [req]))\<close>

definition CheckAssignees :: "GitHubClient \<Rightarrow> Nmap \<Rightarrow> bool Call" where
  \<open>CheckAssignees github urlData0 =
     (if \<not> AssertMapStrings [''repo'', ''assignee''] urlData0 then
        Return False (Some (New ''The urlData["repo"] value and/or urlData["assignee"] value is either empty or doesn't contain any non-whitespace content'')) github urlData0 []
      else
        (let urlData = defaultOwner github urlData0;
             apiUrl = createUrl github (''/repos/'' @ index urlData ''owner'' @ ''/'' @ index urlData ''repo'' @ ''/assignees/'' @ index urlData ''assignee'');
             req = Get_request apiUrl
         in case Client github req of
              Inl e \<Rightarrow> Return False (Some e) github urlData [req]
            | Inr res \<Rightarrow>
                if StatusCode res = 204 then Return True None (getLimits github res) urlData [req]
                else if StatusCode res = 404 then Return False None (getLimits github res) urlData [req]
                else Return False (Some (New (''Didn't receive 204/404 status from Github: '' @ Status res))) github urlData [req]))\<close>

definition IsCollab :: "GitHubClient \<Rightarrow> Nmap \<Rightarrow> bool Call" where
  \<open>IsCollab github urlData0 =
     (if \<not> AssertMapStrings [''repo'', ''user''] urlData0 then
        Return False (Some (New ''There is missing data in urlData'')) github urlData0 []
      else
        (let urlData = defaultOwner github urlData0;
             apiUrl = createUrl github (''/repos/'' @ index urlData ''owner'' @ ''/'' @ index urlData ''repo'' @ ''/collaborators/'' @ index urlData ''user'');
             req = Get_request apiUrl
         in case Client github req of
              Inl e \<Rightarrow> Return False (Some e) github urlData [req]
            | Inr res \<Rightarrow>
                if StatusCode res = 204 then Return True None (getLimits github res) urlData [req]
                else if StatusCode res = 404 then Return False None (getLimits github res) urlData [req]
                else Return False (Some (New (''Didn't receive 204 or 404 status from Github: '' @ Status res))) (getLimits github res) urlData [req]))\<close>

text \<open>
  \<^verbatim>\<open>HasPullMerged\<close>. On a 204 response the method reads the body and calls
  \<^verbatim>\<open>json.Unmarshal(filesJson, files)\<close> with the slice \<^verbatim>\<open>files\<close> itself, not a pointer
  to it.
\<close>

definition HasPullMerged :: "GitHubClient \<Rightarrow> Nmap \<Rightarrow> bool Call" where
  \<open>HasPullMerged github urlData0 =
     (if \<not> AssertMapStrings [''repo'', ''number''] urlData0 then
        Return False (Some (New ''One or more fields are missing and/or do not have content.'')) github urlData0 []
      else
        (let urlData = defaultOwner github urlData0;
             apiUrl = createUrl github (''/repos/'' @ index urlData ''owner'' @ ''/'' @ index urlData ''repo'' @ ''/pulls/'' @ index urlData ''number'' @ ''/merge'');
             req = Get_request apiUrl
         in case Client github req of
              Inl e \<Rightarrow> Return False (Some e) github urlData [req]
            | Inr res \<Rightarrow>
                if StatusCode res = 204 then
                  (case Body res of
                     Inl e \<Rightarrow> Return False (Some e) github urlData [req]
                   | Inr filesJson \<Rightarrow>
                       (case Unmarshal_nonpointer ''[]github.CommitFile'' filesJson of
                          Some e \<Rightarrow> Return False (Some e) github urlData [req]
                        | None \<Rightarrow> Return True None (getLimits github res) urlData [req]))
                else if StatusCode res = 404 then Return False None github urlData [req]
                else Return False (Some (New (''Didn't receive 204/404 status from Github: '' @ Status res))) github urlData [req]))\<close>

text \<open>\<^verbatim>\<open>ListIssueComments\<close>. The path is built from \<^verbatim>\<open>urlData[""]\<close>, as the source has it.\<close>

definition ListIssueComments :: "(string \<Rightarrow> error + 'c list) \<Rightarrow> GitHubClient \<Rightarrow> Nmap \<Rightarrow> 'c list option Call" where
  \<open>ListIssueComments unmarshal github urlData0 =
     (if \<not> AssertMapStrings [''repo'', ''number''] urlData0 then
        Return None (Some (New ''The urlData["repo"] value and/org urlData["number"] value is either empty or doesn't contain any non-whitespace content'')) github urlData0 []
      else
        (let urlData = defaultOwner github urlData0;
             apiUrl = createUrl github (''/repos/'' @ index urlData [] @ ''/'' @ index urlData ''repo'' @ ''/issues/'' @ index urlData ''number'' @ ''/comments'');
             req = Get_request apiUrl
         in case Client github req of
              Inl e \<Rightarrow> Return None (Some e) github urlData [req]
            | Inr res \<Rightarrow>
                if StatusCode res = 200 then
                  (case Body res of
                     Inl e \<Rightarrow> Return None (Some e) github urlData [req]
                   | Inr commentsJson \<Rightarrow>
                       (case unmarshal commentsJson of
                          Inl e \<Rightarrow> Return None (Some e) github urlData [req]
                        | Inr comments \<Rightarrow> Return (Some comments) None (getLimits github res) urlData [req]))
                else Return None (Some (New (''Didn't receive 200 status from Github: '' @ Status res))) github urlData [req]))\<close>

text \<open>
  \<^verbatim>\<open>CreateIssueComment\<close> and \<^verbatim>\<open>CreateRepoKey\<close> build their JSON request bodies by
  concatenation. \<^verbatim>\<open>CreateRepoKey\<close> takes a pointer to the key map; the model takes the
  map it points to.
\<close>

definition CreateIssueComment_jsonText :: "string \<Rightarrow> string" where
  \<open>CreateIssueComment_jsonText commentBody = ''{ "body": "'' @ commentBody @ ''" }''\<close>

definition CreateIssueComment :: "(string \<Rightarrow> error + 'c) \<Rightarrow> GitHubClient \<Rightarrow> Nmap \<Rightarrow> string \<Rightarrow> 'c option Call" where
  \<open>CreateIssueComment unmarshal github urlData0 commentBody0 =
     (let commentBody = TrimSpace commentBody0 in
      if length commentBody = 0 then
        Return None (Some (New ''The comment body does not contain any non-whitespace content.'')) github urlData0 []
      else if \<not> AssertMapStrings [''repo'', ''number''] urlData0 then
        Return None (Some (New ''The urlData["repo"] value and/org urlData["number"] value is either empty or doesn't contain any non-whitespace content'')) github urlData0 []
      else
        (let urlData = defaultOwner github urlData0;
             jsonText = CreateIssueComment_jsonText commentBody;
             apiUrl = createUrl github (''/repos/'' @ index urlData ''owner'' @ ''/'' @ index urlData ''repo'' @ ''/issues/'' @ index urlData ''number'' @ ''/comments'');
             req = Post_request apiUrl ''application/json'' jsonText
         in case Client github req of
              Inl e \<Rightarrow> Return None (Some e) github urlData [req]
            | Inr res \<Rightarrow>
                if StatusCode res = 200 then
                  (case Body res of
                     Inl e \<Rightarrow> Return None (Some e) github urlData [req]
                   | Inr commentJson \<Rightarrow>
                       (case unmarshal commentJson of
                          Inl e \<Rightarrow> Return None (Some e) github urlData [req]
                        | Inr comment \<Rightarrow> Return (Some comment) None (getLimits github res) urlData [req]))
                else Return None (Some (New (''Didn't receive 200 status from Github: '' @ Status res))) github urlData [req]))\<close>

definition CreateRepoKey_jsonText :: "Nmap \<Rightarrow> string" where
  \<open>CreateRepoKey_jsonText key = ''{ "key": "'' @ index key ''key'' @ ''", "title": "'' @ index key ''title'' @ ''" }''\<close>

definition CreateRepoKey :: "(string \<Rightarrow> error + 'k) \<Rightarrow> GitHubClient \<Rightarrow> Nmap \<Rightarrow> Nmap \<Rightarrow> 'k option Call" where
  \<open>CreateRepoKey unmarshal github urlData0 key =
     (if \<not> AssertMapStrings [''repo'', ''id''] urlData0 then
        Return None (Some (New ''There is missing data in urlData'')) github urlData0 []
      else
        (let urlData = defaultOwner github urlData0;
             apiUrl = createUrl github (''/repos/'' @ index urlData ''owner'' @ ''/'' @ index urlData ''repo'' @ ''/keys'');
             req = Post_request apiUrl ''application/json'' (CreateRepoKey_jsonText key)
         in case Client github req of
              Inl e \<Rightarrow> Return None (Some e) github urlData [req]
            | Inr res \<Rightarrow>
                if StatusCode res = 201 then
                  (case Body res of
                     Inl e \<Rightarrow> Return None (Some e) github urlData [req]
                   | Inr keyJson \<Rightarrow>
                       (case unmarshal keyJson of
                          Inl e \<Rightarrow> Return None (Some e) github urlData [req]
                        | Inr k \<Rightarrow> Return (Some k) None (getLimits github res) urlData [req]))
                else Return None (Some (New (''Didn't receive 201 status from Github: '' @ Status res))) github urlData [req]))\<close>

text \<open>
  \<^verbatim>\<open>Merge\<close>. \<^verbatim>\<open>marshal\<close> stands for \<^verbatim>\<open>json.Marshal\<close> of the post data
  (\<^verbatim>\<open>CreateReader\<close>). On a 409 or 404 response the method calls
  \<^verbatim>\<open>json.Unmarshal(msgJson, msg)\<close> with the struct \<^verbatim>\<open>msg\<close> itself, not a pointer to it;
  \<^verbatim>\<open>msg.Message\<close> is still the empty string afterwards.
\<close>

definition Merge ::
  "(Nmap \<Rightarrow> error + string) \<Rightarrow> (string \<Rightarrow> error + 'c) \<Rightarrow> GitHubClient \<Rightarrow> Nmap \<Rightarrow> Nmap \<Rightarrow> 'c option Call" where
  \<open>Merge marshal unmarshal github urlData0 postData =
     (if \<not> AssertMapString ''repo'' urlData0 then
        Return None (Some (New ''There is missing data in urlData'')) github urlData0 []
      else
        (let urlData = defaultOwner github urlData0 in
         if \<not> AssertMapStrings [''head'', ''base''] urlData then
           Return None (Some (New ''There is missing data in postData'')) github urlData []
         else
           (case marshal postData of
              Inl e \<Rightarrow> Return None (Some e) github urlData []
            | Inr apiReader \<Rightarrow>
                (let apiUrl = createUrl github (''/repos/'' @ index urlData ''owner'' @ ''/'' @ index urlData ''repo'' @ ''/merges'');
                     req = Post_request apiUrl ''application/json'' apiReader
                 in case Client github req of
                      Inl e \<Rightarrow> Return None (Some e) github urlData [req]
                    | Inr res \<Rightarrow>
                        if StatusCode res = 201 then
                          (case Body res of
                             Inl e \<Rightarrow> Return None (Some e) github urlData [req]
                           | Inr commitJson \<Rightarrow>
                               (case unmarshal commitJson of
                                  Inl e \<Rightarrow> Return None (Some e) github urlData [req]
                                | Inr commit \<Rightarrow> Return (Some commit) None (getLimits github res) urlData [req]))
                        else if StatusCode res = 204 then
                          Return None None (getLimits github res) urlData [req]
                        else if StatusCode res = 409 \<or> StatusCode res = 404 then
                          (case Body res of
                             Inl e \<Rightarrow> Return None (Some e) github urlData [req]
                           | Inr msgJson \<Rightarrow>
                               (case Unmarshal_nonpointer ''github.Message'' msgJson of
                                  Some e \<Rightarrow> Return None (Some e) github urlData [req]
                                | None \<Rightarrow> Return None (Some (New [])) (getLimits github res) urlData [req]))
                        else Return None (Some (New (''Didn't receive 201 status from Github: '' @ Status res))) (getLimits github res) urlData [req]))))\<close>

section \<open>Notions used to state the properties\<close>

text \<open>
  The number of positions of a string at which a given substring starts, and
  \<^verbatim>\<open>strings.Join\<close>: the elements with the separator between each two.
\<close>

fun occurrences :: "string \<Rightarrow> string \<Rightarrow> nat" where
  "occurrences sub [] = (if sub = [] then 1 else 0)"
| "occurrences sub (c # s) = (if prefix sub (c # s) then 1 else 0) + occurrences sub s"

definition Join :: "string list \<Rightarrow> string \<Rightarrow> string" where
  "Join elems sep = (case elems of [] \<Rightarrow> [] | e # es \<Rightarrow> e @ concat (map (\<lambda>x. sep @ x) es))"

text \<open>The bytes \<^verbatim>\<open>url.QueryEscape\<close> can produce, and one escaped \<^verbatim>\<open>key=value\<close> pair.\<close>

definition queryChar :: "char \<Rightarrow> bool" where
  "queryChar c = (isAlnum c \<or> c \<in> set ''-_.~+%'')"

definition pairEscape :: "string \<times> string \<Rightarrow> string" where
  "pairEscape p = QueryEscape (TrimSpace (fst p)) @ ''='' @ QueryEscape (TrimSpace (snd p))"

text \<open>
  The number a string of decimal digits denotes, and a response that carries both
  rate-limit headers.
\<close>

definition decimal :: "string \<Rightarrow> nat" where
  "decimal s = foldl (\<lambda>n c. n * 10 + ((of_char c :: nat) - 48)) 0 s"

definition limitsResponse :: Response where
  "limitsResponse =
     \<lparr>StatusCode = 200, Status = ''200 OK'',
      Header = [''X-Ratelimit-Limit'' \<mapsto> [''60''], ''X-Ratelimit-Remaining'' \<mapsto> [''59'']],
      Body = Inr []\<rparr>"

text \<open>
  Two stubbed responses: a merge conflict as the server reports it, and a 204 response,
  which has no body.
\<close>

definition conflictResponse :: Response where
  \<open>conflictResponse =
     \<lparr>StatusCode = 409, Status = ''409 Conflict'', Header = Map.empty,
      Body = Inr ''{"message":"Merge conflict"}''\<rparr>\<close>

definition noContentResponse :: Response where
  "noContentResponse =
     \<lparr>StatusCode = 204, Status = ''204 No Content'', Header = Map.empty, Body = Inr []\<rparr>"

text \<open>The only error the scanner records is a syntax error.\<close>

definition syntaxOnly :: "scanner \<Rightarrow> bool" where
  "syntaxOnly s = (case scan_err s of None \<Rightarrow> True | Some e \<Rightarrow> (case e of SyntaxError msg off \<Rightarrow> True | _ \<Rightarrow> False))"

text \<open>An HTTP client that answers no request.\<close>

definition offlineClient :: "Request \<Rightarrow> error + Response" where
  "offlineClient req = Inl (Opaque ''offline'')"

section \<open>Theorems\<close>

subsection \<open>Maps and validators\<close>

lemma TrimSpace_Nil: "TrimSpace [] = []"
  by (simp add: TrimSpace_def)

lemma index_empty: "index Map.empty key = []"
  by (simp add: index_def)

lemma AssertMapStrings_True: "AssertMapStrings s m"
  by (induction s) (auto simp: comma_ok_def TrimSpace_Nil split: option.splits)

lemma AssertMapString_iff:
  "AssertMapString key m \<longleftrightarrow> (\<exists>v. m key = Some v \<and> TrimSpace v \<noteq> [])"
  by (auto simp: AssertMapString_def comma_ok_def split: option.splits)

lemma AssertMapString_empty: "\<not> AssertMapString key Map.empty"
  by (simp add: AssertMapString_iff)

text \<open>
  C1: \<^verbatim>\<open>AssertMapStrings\<close> is claimed to return true exactly when every listed key is
  in the map with a non-blank value, as \<^verbatim>\<open>AssertMapString\<close> does for one key. On the
  key list \<^verbatim>\<open>["repo"]\<close> and the empty map the single-key validator returns false and
  the multi-key validator returns true: its loop tests
  \<^verbatim>\<open>!ok && strings.TrimSpace(val) != ""\<close>, which no key satisfies, so it returns
  true for every key list and every map. The single-key validator is as claimed.
\<close>

theorem AssertMapStrings_accepts_missing_key:
  "AssertMapStrings [''repo''] Map.empty = True
   \<and> AssertMapString ''repo'' Map.empty = False
   \<and> AssertMapStrings s m = True
   \<and> AssertMapString key m = (\<exists>v. m key = Some v \<and> TrimSpace v \<noteq> [])"
proof -
  have "AssertMapStrings s m" for s
    by (induction s) (auto simp: comma_ok_def TrimSpace_Nil split: option.splits)
  then show ?thesis
    by (auto simp: comma_ok_def AssertMapString_def TrimSpace_Nil split: option.splits)
qed

text \<open>
  C10: for every token and login, the client that \<^verbatim>\<open>NewGitHubClient\<close> returns has both
  rate-limit counters at 5000 and the type \<^verbatim>\<open>"oauth"\<close>, before any request is made.
\<close>

theorem NewGitHubClient_initial:
  "CallsLimit (NewGitHubClient httpClient token login) = 5000
   \<and> CallsRemaining (NewGitHubClient httpClient token login) = 5000
   \<and> Type (NewGitHubClient httpClient token login) = ''oauth''
   \<and> Token (NewGitHubClient httpClient token login) = token
   \<and> Login (NewGitHubClient httpClient token login) = login"
  by (simp add: NewGitHubClient_def)

subsection \<open>Query escaping\<close>

lemma less_16_cases:
  "(k::nat) < 16 \<Longrightarrow> k = 0 \<or> k = 1 \<or> k = 2 \<or> k = 3 \<or> k = 4 \<or> k = 5 \<or> k = 6 \<or> k = 7
     \<or> k = 8 \<or> k = 9 \<or> k = 10 \<or> k = 11 \<or> k = 12 \<or> k = 13 \<or> k = 14 \<or> k = 15"
  by arith

lemma upperhex_ok:
  assumes "k < 16"
  shows "ishex (upperhex ! k)" "unhex (upperhex ! k) = k" "upperhex ! k \<in> set upperhex"
  using less_16_cases[OF assms]
  by (elim disjE; simp add: upperhex_def ishex_def unhex_def)+

lemma of_char_div_16: "(of_char c :: nat) div 16 < 16"
proof -
  have "(of_char c :: nat) < 256" by simp
  then show ?thesis by (simp add: less_mult_imp_div_less)
qed

lemma char_of_hex_pair:
  "char_of (unhex (upperhex ! ((of_char c :: nat) div 16)) * 16 + unhex (upperhex ! ((of_char c :: nat) mod 16))) = c"
proof -
  have "unhex (upperhex ! ((of_char c :: nat) div 16)) = (of_char c :: nat) div 16"
    by (rule upperhex_ok(2)[OF of_char_div_16])
  moreover have "unhex (upperhex ! ((of_char c :: nat) mod 16)) = (of_char c :: nat) mod 16"
    by (rule upperhex_ok(2)) simp
  ultimately show ?thesis by simp
qed

lemma shouldEscape_percent_plus: "shouldEscape CHR ''%''" "shouldEscape CHR ''+''"
  by (simp_all add: shouldEscape_def isAlnum_def)

lemma QueryUnescape_escapeByte:
  "QueryUnescape (escapeByte c @ s) =
     (case QueryUnescape s of Inl e \<Rightarrow> Inl e | Inr t \<Rightarrow> Inr (c # t))"
proof (cases "c = CHR '' ''")
  case True
  then show ?thesis by (simp add: escapeByte_def split: sum.splits)
next
  case nsp: False
  show ?thesis
  proof (cases "shouldEscape c")
    case True
    have h1: "ishex (upperhex ! ((of_char c :: nat) div 16))"
      by (rule upperhex_ok(1)[OF of_char_div_16])
    have h2: "ishex (upperhex ! ((of_char c :: nat) mod 16))"
      by (rule upperhex_ok(1)) simp
    show ?thesis using nsp True h1 h2
      by (simp add: escapeByte_def char_of_hex_pair split: sum.splits)
  next
    case False
    then have "c \<noteq> CHR ''%''" "c \<noteq> CHR ''+''"
      using shouldEscape_percent_plus by auto
    then show ?thesis using nsp False by (simp add: escapeByte_def split: sum.splits)
  qed
qed

lemma QueryUnescape_QueryEscape: "QueryUnescape (QueryEscape s) = Inr s"
  by (induction s) (simp_all add: QueryEscape_def QueryUnescape_escapeByte)

lemma upperhex_queryChar: "c \<in> set upperhex \<Longrightarrow> queryChar c"
  unfolding upperhex_def queryChar_def
  by (elim disjE | simp add: isAlnum_def)+

lemma not_shouldEscape_queryChar: "\<not> shouldEscape c \<Longrightarrow> queryChar c"
  by (auto simp: shouldEscape_def queryChar_def split: if_splits)

lemma escapeByte_queryChar:
  assumes a: "x \<in> set (escapeByte c)"
  shows "queryChar x"
proof -
  have u1: "queryChar (upperhex ! ((of_char c :: nat) div 16))"
    by (rule upperhex_queryChar[OF upperhex_ok(3)[OF of_char_div_16]])
  have u2: "queryChar (upperhex ! ((of_char c :: nat) mod 16))"
    by (rule upperhex_queryChar[OF upperhex_ok(3)]) simp
  have q: "queryChar CHR ''+''" "queryChar CHR ''%''" by (simp_all add: queryChar_def)
  consider (sp) "c = CHR '' ''" | (esc) "c \<noteq> CHR '' ''" "shouldEscape c"
    | (keep) "c \<noteq> CHR '' ''" "\<not> shouldEscape c" by blast
  then show ?thesis
  proof cases
    case sp
    with a q show ?thesis by (simp add: escapeByte_def)
  next
    case esc
    with a have "x = CHR ''%'' \<or> x = upperhex ! ((of_char c :: nat) div 16)
        \<or> x = upperhex ! ((of_char c :: nat) mod 16)"
      by (simp add: escapeByte_def)
    with u1 u2 q show ?thesis by blast
  next
    case keep
    with a have "x = c" by (simp add: escapeByte_def)
    with keep not_shouldEscape_queryChar show ?thesis by blast
  qed
qed

lemma QueryEscape_queryChar: "x \<in> set (QueryEscape s) \<Longrightarrow> queryChar x"
  by (auto simp: QueryEscape_def dest: escapeByte_queryChar)

lemma queryChar_not_reserved:
  assumes "queryChar c"
  shows "c \<noteq> CHR ''&''" "c \<noteq> CHR ''=''" "c \<noteq> CHR '';''" "c \<noteq> CHR ''?''" "c \<noteq> CHR ''#''"
    "c \<noteq> CHR '' ''" "c \<noteq> CHR ''/''"
proof -
  have "\<not> queryChar CHR ''&''" "\<not> queryChar CHR ''=''" "\<not> queryChar CHR '';''"
    "\<not> queryChar CHR ''?''" "\<not> queryChar CHR ''#''" "\<not> queryChar CHR '' ''" "\<not> queryChar CHR ''/''"
    by (simp_all add: queryChar_def isAlnum_def)
  with assms show "c \<noteq> CHR ''&''" "c \<noteq> CHR ''=''" "c \<noteq> CHR '';''" "c \<noteq> CHR ''?''" "c \<noteq> CHR ''#''"
    "c \<noteq> CHR '' ''" "c \<noteq> CHR ''/''" by blast+
qed

subsection \<open>The URL builder\<close>

lemma Index_question: "Index path ''?'' = - 1 \<longleftrightarrow> CHR ''?'' \<notin> set path"
proof (induction path)
  case Nil
  show ?case by simp
next
  case (Cons c path)
  have nonneg: "\<And>s. Index s ''?'' \<ge> - 1"
  proof -
    fix s show "Index s ''?'' \<ge> - 1"
      by (induction s) (auto simp: Let_def)
  qed
  show ?case using Cons nonneg[of path]
    by (auto simp: Let_def)
qed

lemma occurrences_absent:
  "c \<in> set sub \<Longrightarrow> c \<notin> set s \<Longrightarrow> occurrences sub s = 0"
proof (induction s)
  case Nil
  then show ?case by auto
next
  case (Cons a s)
  have "\<not> prefix sub (a # s)"
  proof
    assume "prefix sub (a # s)"
    then have "set sub \<subseteq> set (a # s)" by (rule set_mono_prefix)
    with Cons.prems show False by auto
  qed
  with Cons show ?case by simp
qed

lemma createUrl_eq:
  "createUrl github path =
     APIURL @ path @ [if CHR ''?'' \<in> set path then CHR ''&'' else CHR ''?'']
       @ ''access_token='' @ QueryEscape (Token github)"
  by (simp add: createUrl_def Index_question)

lemma prefix_before_absent:
  assumes "c \<notin> set sub" "prefix sub (zs @ c # ys)"
  shows "prefix sub zs"
proof -
  from assms(2) consider "prefix sub zs" | us where "sub = zs @ us" "prefix us (c # ys)"
    by (auto simp: prefix_append)
  then show ?thesis
  proof cases
    case 1
    then show ?thesis .
  next
    case 2
    then have "us = []" using assms(1) by (cases us) auto
    with 2 show ?thesis by simp
  qed
qed

lemma occurrences_split:
  assumes "c \<notin> set sub" "sub \<noteq> []"
  shows "occurrences sub (xs @ c # ys) = occurrences sub xs + occurrences sub ys"
proof (induction xs)
  case Nil
  have "\<not> prefix sub (c # ys)"
    using assms by (cases sub) auto
  then show ?case using assms(2) by simp
next
  case (Cons x xs)
  have "prefix sub (x # xs @ c # ys) \<longleftrightarrow> prefix sub (x # xs)"
  proof
    assume "prefix sub (x # xs @ c # ys)"
    then have "prefix sub ((x # xs) @ c # ys)" by simp
    with assms(1) show "prefix sub (x # xs)" by (rule prefix_before_absent)
  next
    assume "prefix sub (x # xs)"
    then have "prefix sub ((x # xs) @ c # ys)" by (rule prefix_prefix)
    then show "prefix sub (x # xs @ c # ys)" by simp
  qed
  with Cons show ?case by simp
qed

lemma occurrences_APIURL:
  "occurrences ''access_token='' (APIURL @ s) = occurrences ''access_token='' s"
proof -
  have "occurrences ''access_token='' (''https://api.github.co'' @ CHR ''m'' # s)
      = occurrences ''access_token='' ''https://api.github.co'' + occurrences ''access_token='' s"
    by (rule occurrences_split) simp_all
  moreover have "occurrences ''access_token='' ''https://api.github.co'' = 0"
    by (rule occurrences_absent[of "CHR ''=''"]) simp_all
  ultimately show ?thesis by (simp add: APIURL_def)
qed

lemma occurrences_createUrl:
  "occurrences ''access_token='' (createUrl github path) = occurrences ''access_token='' path + 1"
proof -
  let ?sep = "if CHR ''?'' \<in> set path then CHR ''&'' else CHR ''?''"
  let ?enc = "QueryEscape (Token github)"
  have ne: "CHR ''='' \<notin> set ?enc"
    using QueryEscape_queryChar queryChar_not_reserved(2) by blast
  have tail: "occurrences ''access_token='' (''access_token='' @ ?enc) = 1"
    using occurrences_absent[of "CHR ''=''" "''access_token=''" ?enc] ne by simp
  have "occurrences ''access_token='' (path @ ?sep # ''access_token='' @ ?enc)
      = occurrences ''access_token='' path + occurrences ''access_token='' (''access_token='' @ ?enc)"
    by (rule occurrences_split) simp_all
  with tail show ?thesis
    using occurrences_APIURL[of "path @ ?sep # ''access_token='' @ ?enc"]
    by (simp add: createUrl_eq)
qed

lemma QueryEscape_a: "QueryEscape ''a'' = ''a''"
  by (simp add: QueryEscape_def escapeByte_def shouldEscape_def isAlnum_def)

lemma QueryEscape_tok: "QueryEscape ''tok'' = ''tok''"
  by (simp add: QueryEscape_def escapeByte_def shouldEscape_def isAlnum_def)

text \<open>
  C5, as stated, fails: the encoded token does not appear exactly once in the output
  for every path and token. With the token \<^verbatim>\<open>a\<close> and the path \<^verbatim>\<open>/user\<close> the output is
  \<^verbatim>\<open>https://api.github.com/user?access_token=a\<close>, in which \<^verbatim>\<open>a\<close> occurs three times;
  and the path is used as it is, so with the token \<^verbatim>\<open>tok\<close> and the path
  \<^verbatim>\<open>/x?access_token=tok\<close> the output holds the whole parameter
  \<^verbatim>\<open>access_token=tok\<close> twice.
\<close>

theorem createUrl_token_not_once:
  "createUrl (NewGitHubClient offlineClient ''a'' ''me'') ''/user''
     = ''https://api.github.com/user?access_token=a''
   \<and> occurrences (QueryEscape ''a'') (createUrl (NewGitHubClient offlineClient ''a'' ''me'') ''/user'') = 3
   \<and> createUrl (NewGitHubClient offlineClient ''tok'' ''me'') ''/x?access_token=tok''
       = ''https://api.github.com/x?access_token=tok&access_token=tok''
   \<and> occurrences (''access_token='' @ QueryEscape ''tok'')
         (createUrl (NewGitHubClient offlineClient ''tok'' ''me'') ''/x?access_token=tok'') = 2"
  by (simp add: createUrl_eq NewGitHubClient_def APIURL_def QueryEscape_a QueryEscape_tok)

text \<open>
  C5, amended: for every path and token, \<^verbatim>\<open>createUrl\<close> returns the base URL, the
  path as it is, the separator (\<^verbatim>\<open>?\<close> when the path has no \<^verbatim>\<open>?\<close>, \<^verbatim>\<open>&\<close> otherwise)
  and the parameter \<^verbatim>\<open>access_token=\<close> with the percent-encoded token. The builder
  appends the parameter exactly once: the output holds \<^verbatim>\<open>access_token=\<close> once more
  than the path does. What follows the appended \<^verbatim>\<open>access_token=\<close> is the encoded
  token, which decodes to the token and has none of the bytes \<^verbatim>\<open>& = ? # / ;\<close> or a
  space.
\<close>

theorem createUrl_token_appended:
  "createUrl github path =
     APIURL @ path @ [if CHR ''?'' \<in> set path then CHR ''&'' else CHR ''?'']
       @ ''access_token='' @ QueryEscape (Token github)
   \<and> take (length path) (drop (length APIURL) (createUrl github path)) = path
   \<and> occurrences ''access_token='' (createUrl github path) = occurrences ''access_token='' path + 1
   \<and> QueryUnescape (drop (length (APIURL @ path) + 14) (createUrl github path)) = Inr (Token github)
   \<and> set (QueryEscape (Token github)) \<inter> set ''&=?#/; '' = {}"
proof -
  have cs: "set (QueryEscape (Token github)) \<inter> set ''&=?#/; '' = {}"
    using QueryEscape_queryChar queryChar_not_reserved by fastforce
  have dec: "QueryUnescape (drop (length (APIURL @ path) + 14) (createUrl github path)) = Inr (Token github)"
    by (simp add: createUrl_eq QueryUnescape_QueryEscape)
  have verb: "take (length path) (drop (length APIURL) (createUrl github path)) = path"
    by (simp add: createUrl_eq)
  show ?thesis
    using cs dec verb createUrl_eq[of github path] occurrences_createUrl[of github path]
    by blast
qed

subsection \<open>The query-string encoder\<close>

lemma UrlDataConvert_loop_nonempty:
  "s \<noteq> [] \<Longrightarrow> UrlDataConvert_loop s m = s @ concat (map (\<lambda>p. ''&'' @ pairEscape p) m)"
  by (induction m arbitrary: s) (auto simp: pairEscape_def)

lemma UrlDataConvert_Join: "UrlDataConvert m = Join (map pairEscape m) ''&''"
proof (cases m)
  case Nil
  then show ?thesis by (simp add: UrlDataConvert_def Join_def)
next
  case (Cons p ps)
  obtain k v where p: "p = (k, v)" by (cases p)
  have "UrlDataConvert_loop [] ((k, v) # ps) = UrlDataConvert_loop (pairEscape (k, v)) ps"
    by (simp add: pairEscape_def)
  also have "\<dots> = pairEscape (k, v) @ concat (map (\<lambda>p. ''&'' @ pairEscape p) ps)"
    by (rule UrlDataConvert_loop_nonempty) (simp add: pairEscape_def)
  finally show ?thesis using Cons p by (simp add: UrlDataConvert_def Join_def comp_def)
qed

lemma Split_single: "sep \<notin> set p \<Longrightarrow> Split sep p = [p]"
  by (induction p) auto

lemma Split_append:
  "sep \<notin> set p \<Longrightarrow> Split sep (p @ sep # rest) = p # Split sep rest"
  by (induction p) auto

lemma Split_pieces:
  "sep \<notin> set p \<Longrightarrow> \<forall>q\<in>set ps. sep \<notin> set q \<Longrightarrow>
   Split sep (p @ concat (map (\<lambda>x. [sep] @ x) ps)) = p # ps"
proof (induction ps arbitrary: p)
  case Nil
  then show ?case by (simp add: Split_single)
next
  case (Cons q ps)
  have "Split sep (p @ sep # (q @ concat (map (\<lambda>x. [sep] @ x) ps))) =
        p # Split sep (q @ concat (map (\<lambda>x. [sep] @ x) ps))"
    by (rule Split_append) (use Cons.prems in simp)
  also have "Split sep (q @ concat (map (\<lambda>x. [sep] @ x) ps)) = q # ps"
    by (rule Cons.IH) (use Cons.prems in simp_all)
  finally show ?case by simp
qed

lemma Cut_first: "sep \<notin> set a \<Longrightarrow> Cut sep (a @ sep # b) = (a, b)"
  by (induction a) auto

lemma QueryEscape_free:
  "CHR ''&'' \<notin> set (QueryEscape s)" "CHR ''='' \<notin> set (QueryEscape s)" "CHR '';'' \<notin> set (QueryEscape s)"
  using QueryEscape_queryChar queryChar_not_reserved by blast+

lemma pairEscape_free: "CHR ''&'' \<notin> set (pairEscape p)" "CHR '';'' \<notin> set (pairEscape p)" "pairEscape p \<noteq> []"
  by (simp_all add: pairEscape_def QueryEscape_free)

lemma parsePiece_pairEscape:
  "parsePiece (acc, None) (pairEscape p) = (acc @ [(TrimSpace (fst p), TrimSpace (snd p))], None)"
proof -
  have "Cut CHR ''='' (pairEscape p) = (QueryEscape (TrimSpace (fst p)), QueryEscape (TrimSpace (snd p)))"
    unfolding pairEscape_def using Cut_first[OF QueryEscape_free(2)] by simp
  then show ?thesis
    by (simp add: parsePiece_def pairEscape_free QueryUnescape_QueryEscape)
qed

lemma foldl_parsePiece:
  "foldl parsePiece (acc, None) (map pairEscape m) =
     (acc @ map (\<lambda>p. (TrimSpace (fst p), TrimSpace (snd p))) m, None)"
  by (induction m arbitrary: acc) (simp_all add: parsePiece_pairEscape)

lemma ParseQuery_UrlDataConvert:
  "ParseQuery (UrlDataConvert m) = (map (\<lambda>p. (TrimSpace (fst p), TrimSpace (snd p))) m, None)"
proof (cases m)
  case Nil
  then show ?thesis
    by (simp add: ParseQuery_def UrlDataConvert_def parsePiece_def)
next
  case (Cons p ps)
  have "Split CHR ''&'' (pairEscape p @ concat (map (\<lambda>x. ''&'' @ x) (map pairEscape ps)))
        = pairEscape p # map pairEscape ps"
    using Split_pieces[of "CHR ''&''" "pairEscape p" "map pairEscape ps"]
    by (simp add: pairEscape_free)
  then have "Split CHR ''&'' (UrlDataConvert m) = map pairEscape m"
    using Cons by (simp add: UrlDataConvert_Join Join_def comp_def)
  then show ?thesis
    using foldl_parsePiece[of "[]" m] by (simp add: ParseQuery_def)
qed

lemma TrimSpace_sp_a: "TrimSpace '' a'' = ''a''"
  by (simp add: TrimSpace_def spaceRunes_def)

text \<open>
  C7, as stated, fails: the encoder trims the keys as well as the values, so a key with
  surrounding white space does not come back. For the mapping of \<^verbatim>\<open>" a"\<close> to
  \<^verbatim>\<open>"b"\<close> the parser yields the pair \<^verbatim>\<open>("a", "b")\<close>.
\<close>

theorem UrlDataConvert_key_not_restored:
  "fst (ParseQuery (UrlDataConvert [('' a'', ''b'')])) \<noteq> [('' a'', TrimSpace ''b'')]
   \<and> fst (ParseQuery (UrlDataConvert [('' a'', ''b'')])) = [(''a'', TrimSpace ''b'')]"
  by (simp add: ParseQuery_UrlDataConvert TrimSpace_sp_a)

text \<open>
  C7, amended: for every mapping, in whatever order its entries are encoded, parsing
  the encoder's output succeeds and yields the (trimmed key, trimmed value) pairs of
  the entries, in the order they were encoded; as a multiset these pairs depend on the
  entries only, not on their order. The output is the escaped \<^verbatim>\<open>key=value\<close> pairs
  joined by \<^verbatim>\<open>&\<close>, and the empty mapping yields the empty string.
\<close>

theorem UrlDataConvert_round_trip:
  "ParseQuery (UrlDataConvert m) = (map (\<lambda>(key, val). (TrimSpace key, TrimSpace val)) m, None)
   \<and> mset (fst (ParseQuery (UrlDataConvert m))) =
       image_mset (\<lambda>(key, val). (TrimSpace key, TrimSpace val)) (mset m)
   \<and> UrlDataConvert m =
       Join (map (\<lambda>(key, val). QueryEscape (TrimSpace key) @ ''='' @ QueryEscape (TrimSpace val)) m) ''&''
   \<and> UrlDataConvert [] = []"
proof -
  have f: "(\<lambda>p. (TrimSpace (fst p), TrimSpace (snd p))) = (\<lambda>(key, val). (TrimSpace key, TrimSpace val))"
    by (simp add: fun_eq_iff)
  have g: "pairEscape = (\<lambda>(key, val). QueryEscape (TrimSpace key) @ ''='' @ QueryEscape (TrimSpace val))"
    by (simp add: fun_eq_iff pairEscape_def)
  show ?thesis
    using ParseQuery_UrlDataConvert[of m] UrlDataConvert_Join[of m]
    by (simp add: f g UrlDataConvert_def)
qed

subsection \<open>Endpoint methods: the requests they send\<close>

lemma index_defaultOwner_other:
  "key \<noteq> ''owner'' \<Longrightarrow> index (defaultOwner github urlData) key = index urlData key"
  by (simp add: defaultOwner_def index_def)

lemma index_defaultOwner_owner:
  "index (defaultOwner github urlData) ''owner'' =
     (if AssertMapString ''owner'' urlData then index urlData ''owner'' else Login github)"
  by (simp add: defaultOwner_def index_def)

lemma sent_Return: "sent (Return r e g u reqs) = reqs"
  by (simp add: Return_def)

lemma ret_Return: "ret (Return r e g u reqs) = r"
  by (simp add: Return_def)

lemma ret_err_Return: "ret_err (Return r e g u reqs) = e"
  by (simp add: Return_def)

lemma ret_client_Return: "ret_client (Return r e g u reqs) = g"
  by (simp add: Return_def)

lemma sent_GetIssue:
  "sent (GetIssue unmarshal github urlData) =
     [Get_request (createUrl github (''/repos/'' @ index (defaultOwner github urlData) ''owner'' @ ''/''
        @ index urlData ''repo'' @ ''/issues/'' @ index urlData ''number''))]"
  by (simp add: GetIssue_def AssertMapStrings_True Let_def sent_Return index_defaultOwner_other
      split: sum.splits)

text \<open>
  C3: an endpoint method called without a required field is claimed to return a
  validation error and to send nothing. \<^verbatim>\<open>GetIssue\<close> requires \<^verbatim>\<open>repo\<close> and
  \<^verbatim>\<open>number\<close> and guards them with \<^verbatim>\<open>AssertMapStrings\<close>, which accepts every map:
  called with the empty map it hands one GET request to the HTTP client, for a path
  with empty repository and number segments; it sends one request whatever the map.
\<close>

theorem GetIssue_empty_map_sends_request:
  "sent (GetIssue unmarshal github Map.empty) =
     [Get_request (createUrl github (''/repos/'' @ Login github @ ''//issues/''))]
   \<and> length (sent (GetIssue unmarshal github Map.empty)) = 1
   \<and> length (sent (GetIssue unmarshal github urlData)) = 1"
  by (simp add: sent_GetIssue index_defaultOwner_owner AssertMapString_empty index_empty)

text \<open>A field guarded by the single-key validator does stop the call.\<close>

lemma Merge_missing_repo:
  assumes "\<not> AssertMapString ''repo'' urlData"
  shows "sent (Merge marshal unmarshal github urlData postData) = []
    \<and> ret_err (Merge marshal unmarshal github urlData postData) = Some (New ''There is missing data in urlData'')"
  using assms by (simp add: Merge_def sent_Return ret_err_Return)

lemma sent_ListIssueComments:
  "sent (ListIssueComments unmarshal github urlData) =
     [Get_request (createUrl github (''/repos/'' @ index urlData [] @ ''/''
        @ index urlData ''repo'' @ ''/issues/'' @ index urlData ''number'' @ ''/comments''))]"
  by (simp add: ListIssueComments_def AssertMapStrings_True Let_def sent_Return index_defaultOwner_other
      split: sum.splits)

text \<open>
  C8: \<^verbatim>\<open>ListIssueComments\<close> takes the owner segment of its path from the map value at
  the empty key. For every \<^verbatim>\<open>urlData\<close> with no entry at the empty key, whatever it
  holds at \<^verbatim>\<open>owner\<close>, the method sends exactly one request, and its URL is built from
  a path that starts with \<^verbatim>\<open>/repos//\<close>: the owner segment is empty.
\<close>

theorem ListIssueComments_owner_segment_empty:
  "map URL (sent (ListIssueComments unmarshal github urlData)) =
     [createUrl github (''/repos/'' @ index urlData [] @ ''/'' @ index urlData ''repo''
        @ ''/issues/'' @ index urlData ''number'' @ ''/comments'')]
   \<and> (urlData [] = None \<longrightarrow>
        map URL (sent (ListIssueComments unmarshal github urlData)) =
          [createUrl github (''/repos//'' @ index urlData ''repo'' @ ''/issues/''
             @ index urlData ''number'' @ ''/comments'')])"
  by (simp add: sent_ListIssueComments index_def Get_request_def)

theorem ListIssueComments_owner_segment_empty_witness:
  "map URL (sent (ListIssueComments (\<lambda>data. Inl (Opaque []) :: error + unit list)
       (NewGitHubClient (\<lambda>req. Inl (Opaque ''offline'')) ''tok'' ''me'')
       [''owner'' \<mapsto> ''octocat'', ''repo'' \<mapsto> ''hello'', ''number'' \<mapsto> ''1''])) =
     [''https://api.github.com/repos//hello/issues/1/comments?access_token=tok'']"
proof -
  let ?u = "[''owner'' \<mapsto> ''octocat'', ''repo'' \<mapsto> ''hello'', ''number'' \<mapsto> ''1'']"
  let ?g = "NewGitHubClient (\<lambda>req. Inl (Opaque ''offline'')) ''tok'' ''me''"
  let ?um = "\<lambda>data. Inl (Opaque []) :: error + unit list"
  have h: "?u [] = None" by simp
  have "map URL (sent (ListIssueComments ?um ?g ?u)) =
     [createUrl ?g (''/repos//'' @ index ?u ''repo'' @ ''/issues/'' @ index ?u ''number'' @ ''/comments'')]"
    using ListIssueComments_owner_segment_empty[of ?um ?g ?u] h by blast
  then show ?thesis
    by (simp add: createUrl_eq index_def QueryEscape_def escapeByte_def shouldEscape_def
        isAlnum_def APIURL_def NewGitHubClient_def)
qed

subsection \<open>Rate-limit counters\<close>

lemma foldl_digits_mono:
  "n \<le> foldl (\<lambda>n c. n * 10 + ((of_char c :: nat) - 48)) n s"
proof (induction s arbitrary: n)
  case Nil
  show ?case by simp
next
  case (Cons c s)
  have "n \<le> n * 10 + ((of_char c :: nat) - 48)" by simp
  also have "\<dots> \<le> foldl (\<lambda>n c. n * 10 + ((of_char c :: nat) - 48)) (n * 10 + ((of_char c :: nat) - 48)) s"
    by (rule Cons.IH)
  finally show ?case by simp
qed

lemma ParseUint_loop_digits:
  "list_all isDigit s \<Longrightarrow>
   foldl (\<lambda>n c. n * 10 + ((of_char c :: nat) - 48)) n s \<le> maxUint64 \<Longrightarrow>
   ParseUint_loop n s = (foldl (\<lambda>n c. n * 10 + ((of_char c :: nat) - 48)) n s, None)"
proof (induction s arbitrary: n)
  case Nil
  show ?case by simp
next
  case (Cons c s)
  let ?n1 = "n * 10 + ((of_char c :: nat) - 48)"
  have le: "?n1 \<le> maxUint64"
    using foldl_digits_mono[of ?n1 s] Cons.prems(2) by simp
  then have "n * 10 \<le> maxUint64" by simp
  then have small: "\<not> maxUint64 div 10 + 1 \<le> n" by (simp add: maxUint64_def)
  have "ParseUint_loop ?n1 s = (foldl (\<lambda>n c. n * 10 + ((of_char c :: nat) - 48)) ?n1 s, None)"
    by (rule Cons.IH) (use Cons.prems in simp_all)
  then show ?case using Cons.prems(1) le small by (simp add: Let_def)
qed

lemma ParseInt_decimal:
  assumes "s \<noteq> []" "list_all isDigit s" "decimal s < 2 ^ 63"
  shows "ParseInt s = Inr (int (decimal s))"
proof -
  obtain c t where s: "s = c # t" using assms(1) by (cases s) auto
  have d: "isDigit c" using assms(2) s by simp
  then have nosign: "c \<noteq> CHR ''+''" "c \<noteq> CHR ''-''" by (auto simp: isDigit_def)
  have "decimal s \<le> maxUint64" using assms(3) by (simp add: maxUint64_def)
  then have "ParseUint_loop 0 s = (decimal s, None)"
    unfolding decimal_def using ParseUint_loop_digits[OF assms(2), of 0] by simp
  then have "ParseUint s = (decimal s, None)" using assms(1) by (simp add: ParseUint_def)
  then show ?thesis using s nosign assms(3) by (simp add: ParseInt_def)
qed

lemma ParseUint_loop_nondigit:
  "\<not> list_all isDigit s \<Longrightarrow> snd (ParseUint_loop n s) \<noteq> None"
  by (induction s arbitrary: n) (auto simp: Let_def)

lemma ParseInt_empty: "ParseInt [] = Inl ErrSyntax"
  by (simp add: ParseInt_def)

lemma ParseUint_loop_error_shape:
  "ParseUint_loop n s = (un, Some e) \<Longrightarrow> e = ErrSyntax \<or> un = maxUint64"
  by (induction s arbitrary: n) (auto simp: Let_def split: if_splits)

lemma ParseInt_error:
  assumes "ParseUint (if c = CHR ''+'' \<or> c = CHR ''-'' then t else c # t) = (un, Some e)"
  shows "\<exists>e'. ParseInt (c # t) = Inl e'"
proof -
  have "e = ErrSyntax \<or> un = maxUint64"
    using assms ParseUint_loop_error_shape
    by (auto simp: ParseUint_def split: if_splits)
  then show ?thesis
  proof
    assume "e = ErrSyntax"
    with assms show ?thesis by (simp add: ParseInt_def)
  next
    assume "un = maxUint64"
    with assms show ?thesis
      by (cases e) (auto simp: ParseInt_def maxUint64_def Let_def)
  qed
qed

lemma ParseInt_Inr_digits:
  assumes "ParseInt s = Inr n"
  shows "s \<noteq> [] \<and> (let s1 = (if hd s = CHR ''+'' \<or> hd s = CHR ''-'' then tl s else s)
                    in s1 \<noteq> [] \<and> list_all isDigit s1)"
proof -
  obtain c t where s: "s = c # t" using assms by (cases s) (auto simp: ParseInt_def)
  let ?s1 = "if c = CHR ''+'' \<or> c = CHR ''-'' then t else c # t"
  have ok: "snd (ParseUint ?s1) = None"
  proof (rule ccontr)
    assume "snd (ParseUint ?s1) \<noteq> None"
    then obtain un e where "ParseUint ?s1 = (un, Some e)"
      by (cases "ParseUint ?s1") auto
    then have "\<exists>e'. ParseInt (c # t) = Inl e'" by (rule ParseInt_error)
    with assms s show False by simp
  qed
  have ne: "?s1 \<noteq> []"
  proof
    assume "?s1 = []"
    then have "ParseUint ?s1 = (0, Some ErrSyntax)" by (simp add: ParseUint_def)
    with ok show False by simp
  qed
  have "list_all isDigit ?s1"
  proof (rule ccontr)
    assume "\<not> list_all isDigit ?s1"
    then have "snd (ParseUint_loop 0 ?s1) \<noteq> None" by (rule ParseUint_loop_nondigit)
    with ne ok show False by (simp add: ParseUint_def)
  qed
  with ne s show ?thesis by (auto simp: Let_def split: if_splits)
qed

lemma canonical_Remaining: "CanonicalMIMEHeaderKey ''X-RateLimit-Remaining'' = ''X-Ratelimit-Remaining''"
  by code_simp

lemma canonical_Limit: "CanonicalMIMEHeaderKey ''X-RateLimit-Limit'' = ''X-Ratelimit-Limit''"
  by code_simp

lemma Header_Get_absent: "h (CanonicalMIMEHeaderKey key) = None \<Longrightarrow> Header_Get h key = []"
  by (simp add: Header_Get_def)

text \<open>
  C4: after \<^verbatim>\<open>getLimits\<close> has processed a response whose two rate-limit headers both
  parse as integers, the client's counters are the header values; when either header
  fails to parse, and in particular when either is absent (an absent header reads as
  the empty string, which does not parse), the client is left as it was: neither
  counter is written.
\<close>

theorem getLimits_rate_limit_update:
  "(\<forall>remain limit.
      ParseInt (Header_Get (Header res) ''X-RateLimit-Remaining'') = Inr remain \<and>
      ParseInt (Header_Get (Header res) ''X-RateLimit-Limit'') = Inr limit \<longrightarrow>
        CallsRemaining (getLimits github res) = remain \<and> CallsLimit (getLimits github res) = limit)
   \<and> ((\<exists>e. ParseInt (Header_Get (Header res) ''X-RateLimit-Remaining'') = Inl e) \<or>
       (\<exists>e. ParseInt (Header_Get (Header res) ''X-RateLimit-Limit'') = Inl e) \<longrightarrow>
        getLimits github res = github)
   \<and> (Header res ''X-Ratelimit-Remaining'' = None \<or> Header res ''X-Ratelimit-Limit'' = None \<longrightarrow>
        getLimits github res = github)"
  by (auto simp: getLimits_def Header_Get_def canonical_Remaining canonical_Limit ParseInt_empty
      split: sum.splits)


lemma ParseInt_59: "ParseInt ''59'' = Inr 59"
  by (simp add: ParseInt_def ParseUint_def isDigit_def maxUint64_def)

lemma ParseInt_60: "ParseInt ''60'' = Inr 60"
  by (simp add: ParseInt_def ParseUint_def isDigit_def maxUint64_def)

theorem getLimits_rate_limit_update_witness:
  "CallsRemaining (getLimits (NewGitHubClient (\<lambda>req. Inl (Opaque [])) ''tok'' ''me'') limitsResponse) = 59
   \<and> CallsLimit (getLimits (NewGitHubClient (\<lambda>req. Inl (Opaque [])) ''tok'' ''me'') limitsResponse) = 60
   \<and> CallsRemaining (getLimits (NewGitHubClient (\<lambda>req. Inl (Opaque [])) ''tok'' ''me'')
        (limitsResponse\<lparr>Header := [''X-Ratelimit-Limit'' \<mapsto> [''60'']]\<rparr>)) = 5000
   \<and> CallsLimit (getLimits (NewGitHubClient (\<lambda>req. Inl (Opaque [])) ''tok'' ''me'')
        (limitsResponse\<lparr>Header := [''X-Ratelimit-Limit'' \<mapsto> [''60'']]\<rparr>)) = 5000"
proof -
  let ?g = "NewGitHubClient (\<lambda>req. Inl (Opaque [])) ''tok'' ''me''"
  let ?r2 = "limitsResponse\<lparr>Header := [''X-Ratelimit-Limit'' \<mapsto> [''60'']]\<rparr>"
  have r: "ParseInt (Header_Get (Header limitsResponse) ''X-RateLimit-Remaining'') = Inr 59"
    by (simp add: Header_Get_def canonical_Remaining limitsResponse_def ParseInt_59)
  have l: "ParseInt (Header_Get (Header limitsResponse) ''X-RateLimit-Limit'') = Inr 60"
    by (simp add: Header_Get_def canonical_Limit limitsResponse_def ParseInt_60)
  have a: "CallsRemaining (getLimits ?g limitsResponse) = 59 \<and> CallsLimit (getLimits ?g limitsResponse) = 60"
    using getLimits_rate_limit_update[of limitsResponse ?g] r l by blast
  have m: "Header ?r2 ''X-Ratelimit-Remaining'' = None"
    by (simp add: limitsResponse_def)
  have b: "getLimits ?g ?r2 = ?g"
    using getLimits_rate_limit_update[of ?r2 ?g] m by blast
  show ?thesis using a b by (simp add: NewGitHubClient_def)
qed

subsection \<open>The syntax check and non-pointer targets\<close>

lemma TrimSpace_r: "TrimSpace ''r'' = ''r''"
  by (simp add: TrimSpace_def spaceRunes_def)

lemma checkValid_conflict: \<open>checkValid ''{"message":"Merge conflict"}'' = None\<close>
  by code_simp

lemma checkValid_empty: "checkValid [] = Some (SyntaxError ''unexpected end of JSON input'' 0)"
  by code_simp

lemma Unmarshal_nonpointer_not_None: "Unmarshal_nonpointer ty data \<noteq> None"
  by (simp add: Unmarshal_nonpointer_def split: option.splits)


lemma syntaxOnly_update [simp]:
  "syntaxOnly (s\<lparr>step := st\<rparr>) = syntaxOnly s"
  "syntaxOnly (s\<lparr>parseState := ps\<rparr>) = syntaxOnly s"
  "syntaxOnly (s\<lparr>endTop := b\<rparr>) = syntaxOnly s"
  "syntaxOnly (s\<lparr>bytes := n\<rparr>) = syntaxOnly s"
  by (simp_all add: syntaxOnly_def)

lemma syntaxOnly_scan_error [simp]: "syntaxOnly (scan_error s c ctx)"
  by (simp add: syntaxOnly_def scan_error_def)

lemma syntaxOnly_push [simp]: "syntaxOnly s \<Longrightarrow> syntaxOnly (pushParseState s c p)"
  by (simp add: pushParseState_def Let_def)

lemma syntaxOnly_pop [simp]: "syntaxOnly s \<Longrightarrow> syntaxOnly (popParseState s)"
  by (simp add: popParseState_def Let_def)

lemma syntaxOnly_EndTop [simp]: "syntaxOnly s \<Longrightarrow> syntaxOnly (stateEndTop_step s c)"
  by (simp add: stateEndTop_step_def)

lemma syntaxOnly_EndValue [simp]: "syntaxOnly s \<Longrightarrow> syntaxOnly (stateEndValue_step s c)"
  by (simp add: stateEndValue_step_def split: list.splits parseState.splits)

lemma syntaxOnly_BeginValue [simp]: "syntaxOnly s \<Longrightarrow> syntaxOnly (stateBeginValue_step s c)"
  by (simp add: stateBeginValue_step_def)

lemma syntaxOnly_BeginString [simp]: "syntaxOnly s \<Longrightarrow> syntaxOnly (stateBeginString_step s c)"
  by (simp add: stateBeginString_step_def)

lemma syntaxOnly_literal [simp]: "syntaxOnly s \<Longrightarrow> syntaxOnly (literal_step x n nm s c)"
  by (simp add: literal_step_def)

lemma syntaxOnly_hexEscape [simp]: "syntaxOnly s \<Longrightarrow> syntaxOnly (hexEscape_step n s c)"
  by (simp add: hexEscape_step_def)

lemma syntaxOnly_state0 [simp]: "syntaxOnly s \<Longrightarrow> syntaxOnly (state0_step s c)"
  by (simp add: state0_step_def)

lemma syntaxOnly_ESign [simp]: "syntaxOnly s \<Longrightarrow> syntaxOnly (stateESign_step s c)"
  by (simp add: stateESign_step_def)

lemma syntaxOnly_scan_step: "syntaxOnly s \<Longrightarrow> syntaxOnly (scan_step s c)"
  by (cases "step s")
    (simp_all add: scan_step_def stateBeginValueOrEmpty_step_def stateBeginStringOrEmpty_step_def
      stateInString_step_def stateInStringEsc_step_def stateNeg_step_def state1_step_def
      stateDot_step_def stateDot0_step_def stateE_step_def stateE0_step_def)

lemma syntaxOnly_foldl:
  "syntaxOnly s \<Longrightarrow> syntaxOnly (foldl (\<lambda>s c. scan_step (s\<lparr>bytes := bytes s + 1\<rparr>) c) s data)"
  by (induction data arbitrary: s) (simp_all add: syntaxOnly_scan_step)

lemma checkValid_SyntaxError:
  assumes "checkValid data = Some e"
  shows "\<exists>msg off. e = SyntaxError msg off"
proof -
  let ?s = "foldl (\<lambda>s c. scan_step (s\<lparr>bytes := bytes s + 1\<rparr>) c) scan_reset data"
  have a: "syntaxOnly ?s"
    by (rule syntaxOnly_foldl) (simp add: syntaxOnly_def scan_reset_def)
  then have b: "syntaxOnly (scan_step ?s CHR '' '')" by (rule syntaxOnly_scan_step)
  from assms have "scan_eof ?s = Some e" by (simp add: checkValid_def)
  then consider "scan_err ?s = Some e" | "scan_err (scan_step ?s CHR '' '') = Some e"
    | "\<exists>off. e = SyntaxError ''unexpected end of JSON input'' off"
    by (auto simp: scan_eof_def Let_def split: if_splits)
  then show ?thesis
  proof cases
    case 1
    with a show ?thesis by (cases e) (simp_all add: syntaxOnly_def)
  next
    case 2
    with b show ?thesis by (cases e) (simp_all add: syntaxOnly_def)
  next
    case 3
    then show ?thesis by blast
  qed
qed

lemma Unmarshal_nonpointer_cases:
  "(\<exists>msg off. Unmarshal_nonpointer ty data = Some (SyntaxError msg off))
   \<or> Unmarshal_nonpointer ty data = Some (InvalidUnmarshalError ty)"
  using checkValid_SyntaxError[of data]
  by (auto simp: Unmarshal_nonpointer_def split: option.splits)

lemma Merge_stub_201:
  assumes "AssertMapString ''repo'' urlData" "marshal postData = Inr body"
    "StatusCode res = 201" "Body res = Inr commitJson" "unmarshal commitJson = Inr commit"
  shows "ret (Merge marshal unmarshal (github\<lparr>Client := \<lambda>req. Inr res\<rparr>) urlData postData) = Some commit
    \<and> ret_err (Merge marshal unmarshal (github\<lparr>Client := \<lambda>req. Inr res\<rparr>) urlData postData) = None"
  using assms by (simp add: Merge_def AssertMapStrings_True Let_def ret_Return ret_err_Return)

lemma Merge_stub_204:
  assumes "AssertMapString ''repo'' urlData" "marshal postData = Inr body" "StatusCode res = 204"
  shows "ret (Merge marshal unmarshal (github\<lparr>Client := \<lambda>req. Inr res\<rparr>) urlData postData) = None
    \<and> ret_err (Merge marshal unmarshal (github\<lparr>Client := \<lambda>req. Inr res\<rparr>) urlData postData) = None"
  using assms by (simp add: Merge_def AssertMapStrings_True Let_def ret_Return ret_err_Return)

lemma Merge_stub_conflict:
  assumes "AssertMapString ''repo'' urlData" "marshal postData = Inr body"
    "StatusCode res = 409 \<or> StatusCode res = 404" "Body res = Inr msgJson"
  shows "ret (Merge marshal unmarshal (github\<lparr>Client := \<lambda>req. Inr res\<rparr>) urlData postData) = None
    \<and> ret_err (Merge marshal unmarshal (github\<lparr>Client := \<lambda>req. Inr res\<rparr>) urlData postData)
        = Unmarshal_nonpointer ''github.Message'' msgJson
    \<and> (\<forall>text. Unmarshal_nonpointer ''github.Message'' msgJson \<noteq> Some (New text))"
  using assms Unmarshal_nonpointer_cases[of "''github.Message''" msgJson]
  by (auto simp: Merge_def AssertMapStrings_True Let_def ret_Return ret_err_Return)

text \<open>
  C2: \<^verbatim>\<open>Merge\<close> is claimed to have three outcomes; the first two hold
  (\<open>Merge_stub_201\<close>, \<open>Merge_stub_204\<close>). On a 409 response whose body is
  \<^verbatim>\<open>{"message":"Merge conflict"}\<close> the claim promises a nil result and an error
  whose text is \<^verbatim>\<open>Merge conflict\<close>. The code decodes the body into the struct
  \<^verbatim>\<open>msg\<close> passed by value; \<^verbatim>\<open>json.Unmarshal\<close> refuses a target that is no pointer, and
  the method returns that refusal: the result is nil and the error's text is
  \<^verbatim>\<open>json: Unmarshal(non-pointer github.Message)\<close>.
\<close>

theorem Merge_conflict_message_lost:
  \<open>ret (Merge (\<lambda>m. Inr ''{"base":"master","head":"dev"}'') unmarshal
          (github\<lparr>Client := \<lambda>req. Inr conflictResponse\<rparr>)
          [''repo'' \<mapsto> ''r''] [''base'' \<mapsto> ''master'', ''head'' \<mapsto> ''dev'']) = None
   \<and> ret_err (Merge (\<lambda>m. Inr ''{"base":"master","head":"dev"}'') unmarshal
          (github\<lparr>Client := \<lambda>req. Inr conflictResponse\<rparr>)
          [''repo'' \<mapsto> ''r''] [''base'' \<mapsto> ''master'', ''head'' \<mapsto> ''dev''])
       = Some (InvalidUnmarshalError ''github.Message'')
   \<and> Error (InvalidUnmarshalError ''github.Message'') = ''json: Unmarshal(non-pointer github.Message)''
   \<and> Error (InvalidUnmarshalError ''github.Message'') \<noteq> ''Merge conflict''\<close>
  by (simp add: Merge_def AssertMapString_def comma_ok_def TrimSpace_r AssertMapStrings_True
      Let_def conflictResponse_def Unmarshal_nonpointer_def checkValid_conflict
      ret_Return ret_err_Return)

subsection \<open>Existence checks\<close>

lemma CheckAssignees_stub:
  "ret (CheckAssignees (github\<lparr>Client := \<lambda>req. Inr res\<rparr>) urlData) = (StatusCode res = 204)
   \<and> ret_err (CheckAssignees (github\<lparr>Client := \<lambda>req. Inr res\<rparr>) urlData) =
       (if StatusCode res = 204 \<or> StatusCode res = 404 then None
        else Some (New (''Didn't receive 204/404 status from Github: '' @ Status res)))"
  by (simp add: CheckAssignees_def AssertMapStrings_True Let_def ret_Return ret_err_Return)

lemma IsCollab_stub:
  "ret (IsCollab (github\<lparr>Client := \<lambda>req. Inr res\<rparr>) urlData) = (StatusCode res = 204)
   \<and> ret_err (IsCollab (github\<lparr>Client := \<lambda>req. Inr res\<rparr>) urlData) =
       (if StatusCode res = 204 \<or> StatusCode res = 404 then None
        else Some (New (''Didn't receive 204 or 404 status from Github: '' @ Status res)))"
  by (simp add: IsCollab_def AssertMapStrings_True Let_def ret_Return ret_err_Return)

lemma status_line_in_message: "sublist status (Error (New (pre @ status)))"
  by (simp add: sublist_append)

lemma HasPullMerged_stub_204:
  assumes "StatusCode res = 204"
  shows "ret (HasPullMerged (github\<lparr>Client := \<lambda>req. Inr res\<rparr>) urlData) = False
    \<and> ret_err (HasPullMerged (github\<lparr>Client := \<lambda>req. Inr res\<rparr>) urlData) \<noteq> None"
  using assms
  by (auto simp: HasPullMerged_def AssertMapStrings_True Let_def ret_Return ret_err_Return
      Unmarshal_nonpointer_not_None split: sum.splits option.splits)

text \<open>
  C6: every existence check is claimed to return (true, nil) on a 204 response.
  \<^verbatim>\<open>CheckAssignees\<close> and \<^verbatim>\<open>IsCollab\<close> do (\<open>CheckAssignees_stub\<close>, \<open>IsCollab_stub\<close>).
  \<^verbatim>\<open>HasPullMerged\<close>, on a 204 response, decodes the body into a slice passed by
  value, which \<^verbatim>\<open>json.Unmarshal\<close> never accepts: with the empty body of a 204 response
  it returns false and the syntax error of the empty input.
\<close>

theorem HasPullMerged_204_is_error:
  "ret (HasPullMerged (github\<lparr>Client := \<lambda>req. Inr noContentResponse\<rparr>) urlData) = False
   \<and> ret_err (HasPullMerged (github\<lparr>Client := \<lambda>req. Inr noContentResponse\<rparr>) urlData)
       = Some (SyntaxError ''unexpected end of JSON input'' 0)"
  by (simp add: HasPullMerged_def AssertMapStrings_True Let_def noContentResponse_def
      Unmarshal_nonpointer_def checkValid_empty ret_Return ret_err_Return)

subsection \<open>Hand-built request bodies\<close>

lemma sent_CreateIssueComment:
  "map ReqBody (sent (CreateIssueComment unmarshal github urlData commentBody)) =
     (if TrimSpace commentBody = [] then []
      else [CreateIssueComment_jsonText (TrimSpace commentBody)])"
  by (simp add: CreateIssueComment_def AssertMapStrings_True Let_def sent_Return Post_request_def
      split: sum.splits)

lemma sent_CreateRepoKey:
  "map ReqBody (sent (CreateRepoKey unmarshal github urlData key)) = [CreateRepoKey_jsonText key]"
  by (simp add: CreateRepoKey_def AssertMapStrings_True Let_def sent_Return Post_request_def
      split: sum.splits)

lemma TrimSpace_quote: \<open>TrimSpace ''a"b'' = ''a"b''\<close>
  by (simp add: TrimSpace_def spaceRunes_def)

lemma checkValid_comment_quote: \<open>checkValid ''{ "body": "a"b" }'' \<noteq> None\<close>
  by code_simp

lemma checkValid_key_quote: \<open>checkValid ''{ "key": "a"b", "title": "t" }'' \<noteq> None\<close>
  by code_simp

lemma checkValid_injected: \<open>checkValid ''{ "body": "x", "admin": "1" }'' = None\<close>
  by code_simp

text \<open>
  C9: \<^verbatim>\<open>CreateIssueComment\<close> and \<^verbatim>\<open>CreateRepoKey\<close> send, as their request body, the
  field values concatenated into a JSON template as they are (the comment body only
  trimmed). There is a non-blank value with a quote for which the body is not valid
  JSON, for either method; and the comment \<^verbatim>\<open>x", "admin": "1\<close> yields a valid JSON
  object that has a second member, \<^verbatim>\<open>admin\<close>.
\<close>

theorem hand_built_json_bodies_unescaped:
  \<open>map ReqBody (sent (CreateIssueComment unmarshal github urlData commentBody)) =
     (if TrimSpace commentBody = [] then []
      else [''{ "body": "'' @ TrimSpace commentBody @ ''" }''])
   \<and> map ReqBody (sent (CreateRepoKey unmarshal2 github urlData key)) =
     [''{ "key": "'' @ index key ''key'' @ ''", "title": "'' @ index key ''title'' @ ''" }'']
   \<and> (\<exists>v. CHR 0x22 \<in> set v \<and> TrimSpace v = v \<and> v \<noteq> []
          \<and> checkValid (CreateIssueComment_jsonText v) \<noteq> None)
   \<and> (\<exists>v. CHR 0x22 \<in> set v \<and> TrimSpace v = v \<and> v \<noteq> []
          \<and> checkValid (CreateRepoKey_jsonText [''key'' \<mapsto> v, ''title'' \<mapsto> ''t'']) \<noteq> None)
   \<and> CreateIssueComment_jsonText ''x", "admin": "1'' = ''{ "body": "x", "admin": "1" }''
   \<and> checkValid ''{ "body": "x", "admin": "1" }'' = None\<close>
proof -
  have a: \<open>\<exists>v. CHR 0x22 \<in> set v \<and> TrimSpace v = v \<and> v \<noteq> []
          \<and> checkValid (CreateIssueComment_jsonText v) \<noteq> None\<close>
  proof (intro exI conjI)
    show \<open>CHR 0x22 \<in> set ''a"b''\<close> by simp
    show \<open>TrimSpace ''a"b'' = ''a"b''\<close> by (rule TrimSpace_quote)
    show \<open>''a"b'' \<noteq> []\<close> by simp
    show \<open>checkValid (CreateIssueComment_jsonText ''a"b'') \<noteq> None\<close>
      using checkValid_comment_quote by (simp add: CreateIssueComment_jsonText_def)
  qed
  have b: \<open>\<exists>v. CHR 0x22 \<in> set v \<and> TrimSpace v = v \<and> v \<noteq> []
          \<and> checkValid (CreateRepoKey_jsonText [''key'' \<mapsto> v, ''title'' \<mapsto> ''t'']) \<noteq> None\<close>
  proof (intro exI conjI)
    show \<open>CHR 0x22 \<in> set ''a"b''\<close> by simp
    show \<open>TrimSpace ''a"b'' = ''a"b''\<close> by (rule TrimSpace_quote)
    show \<open>''a"b'' \<noteq> []\<close> by simp
    show \<open>checkValid (CreateRepoKey_jsonText [''key'' \<mapsto> ''a"b'', ''title'' \<mapsto> ''t'']) \<noteq> None\<close>
      using checkValid_key_quote by (simp add: CreateRepoKey_jsonText_def index_def)
  qed
  have c: \<open>CreateIssueComment_jsonText ''x", "admin": "1'' = ''{ "body": "x", "admin": "1" }''\<close>
    by (simp add: CreateIssueComment_jsonText_def)
  show ?thesis
    using a b c checkValid_injected
    by (simp add: sent_CreateIssueComment sent_CreateRepoKey CreateIssueComment_jsonText_def
        CreateRepoKey_jsonText_def)
qed

end
